theory Spec2Isabelle
  imports Main "HOL-Library.Word" "HOL-Library.Sublist"
begin

section \<open>Python values, truthiness and exceptions\<close>

text \<open>
  A Python str is the list of its code points, which includes the lone surrogates that a
  JSON body can carry as \<open>\ud800\<close>. A HOL \<open>string\<close> stands for bytes and for the ASCII
  text of the source: literals, header names, template names, messages of exceptions.
  \<open>ustr\<close> is the str that has the characters of such a text.
\<close>

type_synonym pystr = "nat list"

definition ustr :: "string \<Rightarrow> pystr" where
  "ustr s = map of_char s"

text \<open>
  The values that reach the service are the values of a decoded JSON body, the string
  literals of the source and \<open>None\<close>. A dict is kept as an association list of its items.
  JSON numbers with a fraction are left out of the value type.
\<close>

datatype pyval =
    PNone
  | PBool bool
  | PInt int
  | PStr pystr
  | PList "pyval list"
  | PDict "(pystr \<times> pyval) list"

text \<open>
  An instance of \<open>Exception\<close>: its class name and \<open>str(e)\<close>. The messages of the
  exceptions raised here are ASCII text: a str they mention appears escaped by \<open>repr\<close>.
\<close>

datatype exn = Exn (exn_class: string) (exn_str: string)

definition quoted :: "string \<Rightarrow> string" where
  "quoted s = [CHR 0x27] @ s @ [CHR 0x27]"

fun type_name :: "pyval \<Rightarrow> string" where
  "type_name PNone = ''NoneType''"
| "type_name (PBool b) = ''bool''"
| "type_name (PInt i) = ''int''"
| "type_name (PStr s) = ''str''"
| "type_name (PList xs) = ''list''"
| "type_name (PDict kvs) = ''dict''"

text \<open>\<open>bool(v)\<close>, the test behind \<open>if v\<close>, \<open>not v\<close>, \<open>and\<close> and \<open>or\<close>.\<close>

fun truthy :: "pyval \<Rightarrow> bool" where
  "truthy PNone = False"
| "truthy (PBool b) = b"
| "truthy (PInt i) = (i \<noteq> 0)"
| "truthy (PStr s) = (s \<noteq> [])"
| "truthy (PList xs) = (xs \<noteq> [])"
| "truthy (PDict kvs) = (kvs \<noteq> [])"

definition py_and :: "pyval \<Rightarrow> pyval \<Rightarrow> pyval" where
  "py_and a b = (if truthy a then b else a)"

definition py_or :: "pyval \<Rightarrow> pyval \<Rightarrow> pyval" where
  "py_or a b = (if truthy a then a else b)"

text \<open>
  The builtin \<open>all(v)\<close>: it iterates over \<open>v\<close>. A str yields its characters, each a
  non-empty str; a list yields its elements; a dict yields its keys. Any other value is not
  iterable and \<open>all\<close> raises \<open>TypeError\<close>.
\<close>

fun py_all :: "pyval \<Rightarrow> exn + bool" where
  "py_all (PStr s) = Inr True"
| "py_all (PList xs) = Inr (list_all truthy xs)"
| "py_all (PDict kvs) = Inr (list_all (\<lambda>kv. fst kv \<noteq> []) kvs)"
| "py_all v = Inl (Exn ''TypeError'' (quoted (type_name v) @ '' object is not iterable''))"

text \<open>\<open>data.get(key)\<close> and \<open>data.get(key, default)\<close>; only a dict has the method.\<close>

fun dict_get_default :: "pyval \<Rightarrow> string \<Rightarrow> pyval \<Rightarrow> exn + pyval" where
  "dict_get_default (PDict kvs) k d =
     Inr (case map_of kvs (ustr k) of None \<Rightarrow> d | Some v \<Rightarrow> v)"
| "dict_get_default v k d =
     Inl (Exn ''AttributeError''
            (quoted (type_name v) @ '' object has no attribute '' @ quoted ''get''))"

definition dict_get :: "pyval \<Rightarrow> string \<Rightarrow> exn + pyval" where
  "dict_get v k = dict_get_default v k PNone"

section \<open>Encoding text\<close>

text \<open>
  The UTF-8 codec encodes every code point except the surrogates. With the error handler
  \<open>strict\<close> it rejects them all; with \<open>surrogateescape\<close> it lets U+DC80 to U+DCFF through.
\<close>

datatype errors = Strict | SurrogateEscape

definition is_surrogate :: "nat \<Rightarrow> bool" where
  "is_surrogate c = (0xD800 \<le> c \<and> c \<le> 0xDFFF)"

definition escapable :: "nat \<Rightarrow> bool" where
  "escapable c = (0xDC80 \<le> c \<and> c \<le> 0xDCFF)"

fun rejects :: "errors \<Rightarrow> nat \<Rightarrow> bool" where
  "rejects Strict c = is_surrogate c"
| "rejects SurrogateEscape c = (is_surrogate c \<and> \<not> escapable c)"

definition utf8_encodable :: "errors \<Rightarrow> pystr \<Rightarrow> bool" where
  "utf8_encodable h s = (filter (rejects h) s = [])"

text \<open>
  The \<open>UnicodeEncodeError\<close> of the codec names the first rejected code point and the run
  of surrogates that starts there.
\<close>

fun offending :: "errors \<Rightarrow> pystr \<Rightarrow> nat \<Rightarrow> nat \<times> pystr" where
  "offending h [] i = (i, [])"
| "offending h (c # cs) i =
     (if rejects h c then (i, takeWhile is_surrogate (c # cs)) else offending h cs (Suc i))"

definition hex_digit :: "nat \<Rightarrow> char" where
  "hex_digit n = ''0123456789abcdef'' ! (n mod 16)"

definition hex4 :: "nat \<Rightarrow> string" where
  "hex4 c = [hex_digit (c div 4096), hex_digit (c div 256), hex_digit (c div 16), hex_digit c]"

fun digit_char :: "nat \<Rightarrow> char" where
  "digit_char n = ''0123456789'' ! (n mod 10)"

fun show_nat :: "nat \<Rightarrow> string" where
  "show_nat n = (if n < 10 then [digit_char n] else show_nat (n div 10) @ [digit_char n])"

definition show_int :: "int \<Rightarrow> string" where
  "show_int i = (if i < 0 then CHR ''-'' # show_nat (nat (- i)) else show_nat (nat i))"

definition utf8_encode_error :: "errors \<Rightarrow> pystr \<Rightarrow> exn" where
  "utf8_encode_error h s =
     (case offending h s 0 of
        (i, run) \<Rightarrow>
          Exn ''UnicodeEncodeError''
            (quoted ''utf-8'' @ '' codec can'' @ [CHR 0x27] @ ''t encode ''
             @ (if length run = 1
                then ''character '' @ quoted ([CHR 0x5C] @ ''u'' @ hex4 (hd run))
                     @ '' in position '' @ show_nat i
                else ''characters in position '' @ show_nat i @ ''-''
                     @ show_nat (i + length run - 1))
             @ '': surrogates not allowed''))"

section \<open>Configuration, collaborators and state\<close>

text \<open>\<open>config.Config\<close>: read once from the environment when the module is imported.\<close>

record config =
  MAIL_SERVER :: pystr
  MAIL_PORT :: int
  ADMIN_EMAIL :: "pystr option"
  ADMIN_PASSWORD :: "pystr option"
  PASSWORD_RESET_URL_BASE :: pystr

definition py_opt :: "pystr option \<Rightarrow> pyval" where
  "py_opt x = (case x of None \<Rightarrow> PNone | Some s \<Rightarrow> PStr s)"

text \<open>
  A text part, \<open>MIMEText(text, subtype)\<close>, with the charset the constructor chooses, and
  the multipart message: its headers in the order they were set, and its parts.
\<close>

datatype mime_part = MIMEText (payload: pystr) (part_subtype: string) (part_charset: string)

record message =
  headers :: "(string \<times> pyval) list"
  parts :: "mime_part list"

text \<open>A Jinja2 template: \<open>render\<close> maps the keyword arguments to the HTML or raises.\<close>

type_synonym template = "(string \<times> pyval) list \<Rightarrow> exn + pystr"

text \<open>
  What the process does not decide: the answers of the mail server to each call of
  \<open>smtplib\<close> (\<open>None\<close> when the call returns, the exception when it raises), the template
  loader, the bytes of the operating system's secure random source, the numbers
  \<open>random.randrange\<close> returns, the bytes \<open>email.generator\<close> flattens a message to when the
  boundary is made from such a number, and \<open>str()\<close> of a list or a dict.
\<close>

record world =
  smtp_connect :: "pystr \<Rightarrow> int \<Rightarrow> exn option"
  smtp_login :: "pyval \<Rightarrow> pyval \<Rightarrow> exn option"
  flatten :: "message \<Rightarrow> nat \<Rightarrow> exn + string"
  smtp_sendmail :: "string \<Rightarrow> exn option"
  smtp_exit :: "exn option"
  get_template :: "string \<Rightarrow> exn + template"
  urandom :: "nat \<Rightarrow> 8 word"
  randrange :: "nat \<Rightarrow> nat"
  str_container :: "pyval \<Rightarrow> string"

datatype smtp_event =
    SMTP_SSL pystr int
  | Login pyval pyval
  | SendMessage message
  | Exit

text \<open>
  What a call leaves behind: the calls made on the mail server, the flattened messages
  passed on for transmission, the lines printed, how many random bytes have been consumed
  and how many times \<open>random.randrange\<close> has been called.
\<close>

record state =
  smtp_log :: "smtp_event list"
  wire :: "string list"
  stdout :: "pystr list"
  rand_pos :: nat
  boundary_draws :: nat

text \<open>A computation that reads and updates the state and returns or raises.\<close>

type_synonym 'a io = "state \<Rightarrow> (exn + 'a) \<times> state"

definition ret :: "'a \<Rightarrow> 'a io" where
  "ret x st = (Inr x, st)"

definition lift :: "exn + 'a \<Rightarrow> 'a io" where
  "lift r st = (r, st)"

definition bind :: "'a io \<Rightarrow> ('a \<Rightarrow> 'b io) \<Rightarrow> 'b io" where
  "bind m f st = (case m st of (Inl e, st') \<Rightarrow> (Inl e, st') | (Inr x, st') \<Rightarrow> f x st')"

text \<open>A call that returns a value and a new state and does not raise.\<close>

definition call :: "(state \<Rightarrow> 'a \<times> state) \<Rightarrow> 'a io" where
  "call f st = (case f st of (x, st') \<Rightarrow> (Inr x, st'))"

text \<open>\<open>try: m  except Exception as e: h e\<close>.\<close>

definition try_except :: "'a io \<Rightarrow> (exn \<Rightarrow> 'a io) \<Rightarrow> 'a io" where
  "try_except m h st = (case m st of (Inl e, st') \<Rightarrow> h e st' | (Inr x, st') \<Rightarrow> (Inr x, st'))"

text \<open>
  \<open>with enter as x: body\<close>: when \<open>enter\<close> raises nothing else runs; otherwise the exit
  handler runs whether the body returned or raised, and an exception of the exit handler
  replaces the outcome of the body.
\<close>

definition with_stmt :: "unit io \<Rightarrow> 'a io \<Rightarrow> unit io \<Rightarrow> 'a io" where
  "with_stmt enter body leave st =
     (case enter st of
        (Inl e, st1) \<Rightarrow> (Inl e, st1)
      | (Inr u, st1) \<Rightarrow>
          (case body st1 of
             (r, st2) \<Rightarrow>
               (case leave st2 of
                  (Inl e, st3) \<Rightarrow> (Inl e, st3)
                | (Inr u', st3) \<Rightarrow> (r, st3))))"

text \<open>
  \<open>print(line)\<close> writes to standard output, a UTF-8 stream with the error handler
  \<open>strict\<close>: a line with a surrogate raises \<open>UnicodeEncodeError\<close> and nothing is written.
\<close>

definition print :: "pystr \<Rightarrow> unit io" where
  "print line st =
     (if utf8_encodable Strict line
      then (Inr (), st\<lparr>stdout := stdout st @ [line]\<rparr>)
      else (Inl (utf8_encode_error Strict line), st))"

definition smtp_call :: "smtp_event \<Rightarrow> exn option \<Rightarrow> unit io" where
  "smtp_call ev answer st =
     ((case answer of Some e \<Rightarrow> Inl e | None \<Rightarrow> Inr ()),
      st\<lparr>smtp_log := smtp_log st @ [ev]\<rparr>)"


definition send_message :: "world \<Rightarrow> message \<Rightarrow> unit io" where
  "send_message w msg st =
     (let token = randrange w (boundary_draws st);
          st1 = st\<lparr>smtp_log := smtp_log st @ [SendMessage msg],
                   boundary_draws := Suc (boundary_draws st)\<rparr>
      in case flatten w msg token of
           Inl e \<Rightarrow> (Inl e, st1)
         | Inr flatmsg \<Rightarrow>
             ((case smtp_sendmail w flatmsg of Some e \<Rightarrow> Inl e | None \<Rightarrow> Inr ()),
              st1\<lparr>wire := wire st1 @ [flatmsg]\<rparr>))"

section \<open>Formatting values into text\<close>

text \<open>
  \<open>str(v)\<close>, which is what a replacement field of an f-string inserts. For a list or a
  dict it is made of the \<open>repr\<close> of the items, which escapes surrogates.
\<close>

definition py_str :: "world \<Rightarrow> pyval \<Rightarrow> pystr" where
  "py_str w v =
     (case v of
        PStr s \<Rightarrow> s
      | PNone \<Rightarrow> ustr ''None''
      | PBool b \<Rightarrow> (if b then ustr ''True'' else ustr ''False'')
      | PInt i \<Rightarrow> ustr (show_int i)
      | _ \<Rightarrow> ustr (str_container w v))"

section \<open>Token generator\<close>

text \<open>
  \<open>secrets.token_urlsafe(nbytes)\<close> of the standard library is
  \<open>base64.urlsafe_b64encode(token_bytes(nbytes)).rstrip(b'=').decode('ascii')\<close>.
  \<open>token_bytes\<close> reads the next bytes of the secure random source.
\<close>

definition urlsafe_alphabet :: string where
  "urlsafe_alphabet = ''ABCDEFGHIJKLMNOPQRSTUVWXYZabcdefghijklmnopqrstuvwxyz0123456789-_''"

definition b64char :: "nat \<Rightarrow> char" where
  "b64char i = urlsafe_alphabet ! (i mod 64)"

text \<open>Three bytes are one 24-bit group that is split into four 6-bit indices.\<close>

fun urlsafe_b64encode :: "8 word list \<Rightarrow> string" where
  "urlsafe_b64encode [] = []"
| "urlsafe_b64encode [a] =
     (let n = unat a * 65536
      in [b64char (n div 262144), b64char (n div 4096), CHR ''='', CHR ''=''])"
| "urlsafe_b64encode [a, b] =
     (let n = unat a * 65536 + unat b * 256
      in [b64char (n div 262144), b64char (n div 4096), b64char (n div 64), CHR ''=''])"
| "urlsafe_b64encode (a # b # c # rest) =
     (let n = unat a * 65536 + unat b * 256 + unat c
      in [b64char (n div 262144), b64char (n div 4096), b64char (n div 64), b64char n]
         @ urlsafe_b64encode rest)"

definition rstrip :: "char \<Rightarrow> string \<Rightarrow> string" where
  "rstrip c s = rev (dropWhile (\<lambda>x. x = c) (rev s))"

definition token_bytes :: "world \<Rightarrow> nat \<Rightarrow> state \<Rightarrow> 8 word list \<times> state" where
  "token_bytes w n st =
     (map (urandom w) [rand_pos st ..< rand_pos st + n], st\<lparr>rand_pos := rand_pos st + n\<rparr>)"

definition token_urlsafe :: "world \<Rightarrow> nat \<Rightarrow> state \<Rightarrow> pystr \<times> state" where
  "token_urlsafe w n st =
     (case token_bytes w n st of
        (tok, st') \<Rightarrow> (ustr (rstrip CHR ''='' (urlsafe_b64encode tok)), st'))"

definition generate_reset_token :: "world \<Rightarrow> state \<Rightarrow> pystr \<times> state" where
  "generate_reset_token w st = token_urlsafe w 32 st"

text \<open>
  The characters that need no percent-encoding in a URL query parameter: the unreserved
  characters of RFC 3986.
\<close>

definition unreserved_char :: "char \<Rightarrow> bool" where
  "unreserved_char c =
     (c \<in> set ''ABCDEFGHIJKLMNOPQRSTUVWXYZabcdefghijklmnopqrstuvwxyz0123456789-._~'')"

definition url_unreserved :: "nat \<Rightarrow> bool" where
  "url_unreserved c = (c < 256 \<and> unreserved_char (char_of c))"

text \<open>Lengths of the padding and of the unpadded text for \<open>n\<close> encoded bytes.\<close>

definition pad_len :: "nat \<Rightarrow> nat" where
  "pad_len n = (3 - n mod 3) mod 3"

definition body_len :: "nat \<Rightarrow> nat" where
  "body_len n = (n * 4 + 2) div 3"

section \<open>The email service\<close>

text \<open>\<open>EmailService.__init__\<close> copies the configuration and sets up the template loader.\<close>

record email_service =
  smtp_server :: pystr
  smtp_port :: int
  admin_email :: "pystr option"
  admin_password :: "pystr option"
  jinja_env :: "string \<Rightarrow> exn + template"

definition EmailService_init :: "config \<Rightarrow> world \<Rightarrow> email_service" where
  "EmailService_init cfg w =
     \<lparr>smtp_server = MAIL_SERVER cfg,
      smtp_port = MAIL_PORT cfg,
      admin_email = ADMIN_EMAIL cfg,
      admin_password = ADMIN_PASSWORD cfg,
      jinja_env = get_template w\<rparr>"

text \<open>
  The constructor \<open>MIMEText(text, subtype)\<close> calls \<open>text.encode\<close>, a method that only a
  str has. The charset is \<open>us-ascii\<close> for ASCII text and \<open>utf-8\<close> otherwise, and the text
  is then encoded in that charset with the error handler \<open>surrogateescape\<close>.
\<close>

definition charset_of :: "pystr \<Rightarrow> string" where
  "charset_of s = (if filter (\<lambda>c. 128 \<le> c) s = [] then ''us-ascii'' else ''utf-8'')"

fun MIMEText_new :: "pyval \<Rightarrow> string \<Rightarrow> exn + mime_part" where
  "MIMEText_new (PStr s) sub =
     (if utf8_encodable SurrogateEscape s
      then Inr (MIMEText s sub (charset_of s))
      else Inl (utf8_encode_error SurrogateEscape s))"
| "MIMEText_new v sub =
     Inl (Exn ''AttributeError''
            (quoted (type_name v) @ '' object has no attribute '' @ quoted ''encode''))"

text \<open>
  \<open>MIMEMultipart(subtype)\<close> starts with the two headers of its base class;
  \<open>msg[name] = value\<close> appends a header and \<open>msg.attach(part)\<close> a part.
\<close>

definition MIMEMultipart_new :: "string \<Rightarrow> message" where
  "MIMEMultipart_new sub =
     \<lparr>headers = [(''Content-Type'', PStr (ustr (''multipart/'' @ sub))),
                 (''MIME-Version'', PStr (ustr ''1.0''))],
      parts = []\<rparr>"

definition set_header :: "message \<Rightarrow> string \<Rightarrow> pyval \<Rightarrow> message" where
  "set_header msg name v = msg\<lparr>headers := headers msg @ [(name, v)]\<rparr>"

definition attach :: "message \<Rightarrow> mime_part \<Rightarrow> message" where
  "attach msg p = msg\<lparr>parts := parts msg @ [p]\<rparr>"


text \<open>
  The first half of the \<open>try\<close> block of \<open>send_email\<close>: the message is created, its three
  headers are set, the plain part is attached when \<open>text_content\<close> is truthy, then the
  HTML part.
\<close>

definition send_email_compose ::
  "email_service \<Rightarrow> pyval \<Rightarrow> pyval \<Rightarrow> pyval \<Rightarrow> pyval \<Rightarrow> exn + message" where
  "send_email_compose self to_email subject html_content text_content =
     (let msg = set_header
                  (set_header
                     (set_header (MIMEMultipart_new ''alternative'') ''Subject'' subject)
                     ''From'' (py_opt (admin_email self)))
                  ''To'' to_email
      in case (if truthy text_content
               then (case MIMEText_new text_content ''plain'' of
                       Inl e \<Rightarrow> Inl e
                     | Inr text_part \<Rightarrow> Inr (attach msg text_part))
               else Inr msg) of
           Inl e \<Rightarrow> Inl e
         | Inr msg' \<Rightarrow>
             (case MIMEText_new html_content ''html'' of
                Inl e \<Rightarrow> Inl e
              | Inr html_part \<Rightarrow> Inr (attach msg' html_part)))"

text \<open>
  The second half: one SSL session per call. Leaving the \<open>with\<close> block sends \<open>QUIT\<close>
  and closes the connection; \<open>smtplib\<close> raises there when the server answers \<open>QUIT\<close>
  with an error.
\<close>

definition send_email_transmit :: "world \<Rightarrow> email_service \<Rightarrow> message \<Rightarrow> unit io" where
  "send_email_transmit w self msg =
     with_stmt
       (smtp_call (SMTP_SSL (smtp_server self) (smtp_port self))
                  (smtp_connect w (smtp_server self) (smtp_port self)))
       (bind (smtp_call (Login (py_opt (admin_email self)) (py_opt (admin_password self)))
                        (smtp_login w (py_opt (admin_email self)) (py_opt (admin_password self))))
             (\<lambda>u. send_message w msg))
       (smtp_call Exit (smtp_exit w))"

text \<open>The two lines \<open>send_email\<close> prints.\<close>

definition sent_line :: "world \<Rightarrow> pyval \<Rightarrow> pystr" where
  "sent_line w to_email = ustr ''Email sent successfully to '' @ py_str w to_email"

definition error_line :: "world \<Rightarrow> pyval \<Rightarrow> exn \<Rightarrow> pystr" where
  "error_line w to_email e =
     ustr ''Error sending email to '' @ py_str w to_email @ ustr '': '' @ ustr (exn_str e)"

definition send_email ::
  "world \<Rightarrow> email_service \<Rightarrow> pyval \<Rightarrow> pyval \<Rightarrow> pyval \<Rightarrow> pyval \<Rightarrow> bool io" where
  "send_email w self to_email subject html_content text_content =
     try_except
       (bind (lift (send_email_compose self to_email subject html_content text_content))
          (\<lambda>msg. bind (send_email_transmit w self msg)
          (\<lambda>u. bind (print (sent_line w to_email))
          (\<lambda>u. ret True))))
       (\<lambda>e. bind (print (error_line w to_email e))
          (\<lambda>u. ret False))"

subsection \<open>Password reset email\<close>

definition nl :: pystr where
  "nl = [0x0A]"

definition indent :: pystr where
  "indent = ustr ''        ''"

text \<open>The keyword arguments of \<open>template.render\<close> in \<open>send_password_reset_email\<close>.\<close>

definition reset_context :: "pyval \<Rightarrow> pyval \<Rightarrow> pyval \<Rightarrow> (string \<times> pyval) list" where
  "reset_context user_name username reset_url =
     (let display_name = py_or user_name username
      in [(''user_name'', display_name),
          (''username'', username),
          (''reset_url'', reset_url),
          (''expiration_minutes'', PInt 60)])"

text \<open>The f-string of the plain-text version, line by line.\<close>

definition reset_text :: "world \<Rightarrow> pyval \<Rightarrow> pyval \<Rightarrow> pystr" where
  "reset_text w display_name reset_url =
     nl @ indent @ ustr ''Hello '' @ py_str w display_name @ ustr '','' @ nl
     @ indent @ nl
     @ indent
     @ ustr ''You requested a password reset for your Computer Networks program account.'' @ nl
     @ indent @ nl
     @ indent @ ustr ''Please visit this link to reset your password:'' @ nl
     @ indent @ py_str w reset_url @ nl
     @ indent @ nl
     @ indent @ ustr ''This link will expire in 60 minutes for security purposes.'' @ nl
     @ indent @ nl
     @ indent @ ustr (''If you didn'' @ [CHR 0x27]
                      @ ''t request this password reset, you can safely ignore this email.'')
     @ nl
     @ indent @ nl
     @ indent @ ustr ''- Computer Networks Program Team'' @ nl
     @ indent"

definition reset_subject :: string where
  "reset_subject = ''Password Reset - Computer Networks Program''"

definition send_password_reset_email ::
  "world \<Rightarrow> email_service \<Rightarrow> pyval \<Rightarrow> pyval \<Rightarrow> pyval \<Rightarrow> pyval \<Rightarrow> bool io" where
  "send_password_reset_email w self to_email username reset_url user_name =
     (let display_name = py_or user_name username;
          subject = PStr (ustr reset_subject)
      in bind (lift (jinja_env self ''password_reset.html''))
           (\<lambda>template. bind (lift (template (reset_context user_name username reset_url)))
           (\<lambda>html_content.
              send_email w self to_email subject (PStr html_content)
                (PStr (reset_text w display_name reset_url)))))"

subsection \<open>Reset success email\<close>

definition success_text :: "world \<Rightarrow> pyval \<Rightarrow> pystr" where
  "success_text w username =
     nl @ indent @ ustr ''Hello '' @ py_str w username @ ustr '','' @ nl
     @ indent @ nl
     @ indent
     @ ustr ''Your password has been successfully reset for the Computer Networks program.''
     @ nl
     @ indent @ nl
     @ indent @ ustr ''If you did not make this change, please contact support immediately.''
     @ nl
     @ indent @ nl
     @ indent @ ustr ''- Computer Networks Program Team'' @ nl
     @ indent"

definition success_subject :: string where
  "success_subject = ''Password Reset Successful - Computer Networks Program''"

definition send_password_reset_success_email ::
  "world \<Rightarrow> email_service \<Rightarrow> pyval \<Rightarrow> pyval \<Rightarrow> bool io" where
  "send_password_reset_success_email w self to_email username =
     bind (lift (jinja_env self ''password_reset_success.html''))
       (\<lambda>template. bind (lift (template [(''username'', username)]))
       (\<lambda>html_content.
          send_email w self to_email (PStr (ustr success_subject)) (PStr html_content)
            (PStr (success_text w username))))"

section \<open>The HTTP endpoints\<close>

text \<open>
  A request is the outcome of \<open>request.json\<close>: the decoded body, or the exception Flask
  raises for a body that is not JSON. A response is the jsonified dict and the status.
\<close>

type_synonym request = "exn + pyval"

type_synonym response = "pyval \<times> nat"

definition error_body :: "string \<Rightarrow> pyval" where
  "error_body m = PDict [(ustr ''error'', PStr (ustr m))]"

definition sent_body :: "string \<Rightarrow> pyval" where
  "sent_body m = PDict [(ustr ''status'', PStr (ustr ''sent'')), (ustr ''message'', PStr (ustr m))]"

text \<open>The \<open>except Exception as e\<close> of the endpoints: 500 with \<open>str(e)\<close>.\<close>

definition respond_500 :: "exn \<Rightarrow> response io" where
  "respond_500 e = ret (error_body (exn_str e), 500)"

definition send_password_reset ::
  "world \<Rightarrow> config \<Rightarrow> email_service \<Rightarrow> request \<Rightarrow> response io" where
  "send_password_reset w cfg email_service req =
     try_except
       (bind (lift req)
          (\<lambda>data. bind (lift (dict_get data ''email''))
          (\<lambda>email. bind (lift (dict_get data ''username''))
          (\<lambda>username. bind (lift (dict_get data ''user_name''))
          (\<lambda>user_name.
             if \<not> truthy email \<or> \<not> truthy username
             then ret (error_body ''email and username are required'', 400)
             else bind (call (generate_reset_token w))
               (\<lambda>reset_token.
                  let reset_url = PASSWORD_RESET_URL_BASE cfg @ ustr ''?token='' @ reset_token
                                  @ ustr ''&username='' @ py_str w username
                  in bind (send_password_reset_email w email_service email username
                             (PStr reset_url) user_name)
                       (\<lambda>success.
                          if success
                          then ret (PDict [(ustr ''status'', PStr (ustr ''sent'')),
                                           (ustr ''message'',
                                            PStr (ustr ''Password reset email sent successfully'')),
                                           (ustr ''token'', PStr reset_token)], 200)
                          else ret (error_body ''Failed to send email'', 500))))))))
       (\<lambda>e. bind (print (ustr ''Error in password reset endpoint: '' @ ustr (exn_str e)))
          (\<lambda>u. respond_500 e))"

definition send_reset_success :: "world \<Rightarrow> email_service \<Rightarrow> request \<Rightarrow> response io" where
  "send_reset_success w email_service req =
     try_except
       (bind (lift req)
          (\<lambda>data. bind (lift (dict_get data ''email''))
          (\<lambda>email. bind (lift (dict_get data ''username''))
          (\<lambda>username.
             if \<not> truthy email \<or> \<not> truthy username
             then ret (error_body ''email and username are required'', 400)
             else bind (send_password_reset_success_email w email_service email username)
                    (\<lambda>success.
                       if success
                       then ret (sent_body ''Success email sent'', 200)
                       else ret (error_body ''Failed to send success email'', 500))))))
       (\<lambda>e. bind (print (ustr ''Error in success email endpoint: '' @ ustr (exn_str e)))
          (\<lambda>u. respond_500 e))"


text \<open>
  The required-field check of this endpoint is \<open>not all(to_email and subject and
  html_content)\<close>: \<open>all\<close> is applied to the value of the \<open>and\<close> chain.
\<close>

definition send_custom_email :: "world \<Rightarrow> email_service \<Rightarrow> request \<Rightarrow> response io" where
  "send_custom_email w email_service req =
     try_except
       (bind (lift req)
          (\<lambda>data. bind (lift (dict_get data ''to_email''))
          (\<lambda>to_email. bind (lift (dict_get data ''subject''))
          (\<lambda>subject. bind (lift (dict_get data ''html_content''))
          (\<lambda>html_content.
             bind (lift (py_all (py_and (py_and to_email subject) html_content)))
               (\<lambda>ok.
                  if \<not> ok
                  then ret (error_body ''to_email, subject, and html_content are required'', 400)
                  else bind (send_email w email_service to_email subject html_content PNone)
                         (\<lambda>success.
                            if success
                            then ret (sent_body ''Email sent successfully'', 200)
                            else ret (error_body ''Failed to send email'', 500))))))))
       respond_500"





definition new_wire :: "state \<Rightarrow> state \<Rightarrow> string list" where
  "new_wire st st' = drop (length (wire st)) (wire st')"

section \<open>Concrete collaborators for worked examples\<close>

definition demo_config :: config where
  "demo_config =
     \<lparr>MAIL_SERVER = ustr ''smtp.gmail.com'',
      MAIL_PORT = 465,
      ADMIN_EMAIL = Some (ustr ''admin@example.com''),
      ADMIN_PASSWORD = Some (ustr ''app-password''),
      PASSWORD_RESET_URL_BASE = ustr ''https://yourapp.com/reset''\<rparr>"

text \<open>A template that lists the string values it was given.\<close>

definition demo_render :: template where
  "demo_render ctx =
     Inr (concat (map (\<lambda>kv. case snd kv of
                               PStr s \<Rightarrow> ustr ''<p>'' @ s @ ustr ''</p>''
                             | _ \<Rightarrow> []) ctx))"

text \<open>
  What \<open>email.generator\<close> writes for a multipart message whose header values are short
  ASCII strs and whose parts are single lines of ASCII text, which is what the examples
  send: the folded \<open>Content-Type\<close> with the boundary, the other headers, and the parts
  between the boundary lines. The boundary is fifteen \<open>=\<close>, the number drawn in nineteen
  digits, and two \<open>=\<close>.
\<close>

definition crlf :: string where
  "crlf = [CHR 0x0D, CHR 0x0A]"

definition ascii_bytes :: "pystr \<Rightarrow> string" where
  "ascii_bytes s = map char_of s"

definition demo_boundary :: "nat \<Rightarrow> string" where
  "demo_boundary token =
     replicate 15 CHR ''='' @ replicate (19 - length (show_nat token)) CHR ''0''
     @ show_nat token @ ''==''"

definition demo_header_line :: "string \<times> pyval \<Rightarrow> string" where
  "demo_header_line h =
     fst h @ '': '' @ (case snd h of PStr s \<Rightarrow> ascii_bytes s | _ \<Rightarrow> []) @ crlf"

definition demo_part :: "mime_part \<Rightarrow> string" where
  "demo_part p =
     ''Content-Type: text/'' @ part_subtype p @ ''; charset='' @ [CHR 0x22] @ part_charset p
     @ [CHR 0x22] @ crlf
     @ ''MIME-Version: 1.0'' @ crlf
     @ ''Content-Transfer-Encoding: 7bit'' @ crlf
     @ crlf
     @ ascii_bytes (payload p)"

definition demo_bytes :: "message \<Rightarrow> nat \<Rightarrow> string" where
  "demo_bytes msg token =
     ''Content-Type: multipart/alternative;'' @ crlf
     @ '' boundary='' @ [CHR 0x22] @ demo_boundary token @ [CHR 0x22] @ crlf
     @ concat (map demo_header_line (tl (headers msg)))
     @ concat (map (\<lambda>p. crlf @ ''--'' @ demo_boundary token @ crlf @ demo_part p)
                 (parts msg))
     @ crlf @ ''--'' @ demo_boundary token @ ''--'' @ crlf"

definition demo_flatten :: "message \<Rightarrow> nat \<Rightarrow> exn + string" where
  "demo_flatten msg token = Inr (demo_bytes msg token)"

text \<open>
  A mail server that accepts every call, a loader that finds every template, and a
  \<open>random.randrange\<close> that returns 0, 1, 2 and so on.
\<close>

definition demo_world :: world where
  "demo_world =
     \<lparr>smtp_connect = (\<lambda>host port. None),
      smtp_login = (\<lambda>user password. None),
      flatten = demo_flatten,
      smtp_sendmail = (\<lambda>flatmsg. None),
      smtp_exit = None,
      get_template = (\<lambda>name. Inr demo_render),
      urandom = (\<lambda>i. 0),
      randrange = (\<lambda>i. i),
      str_container = (\<lambda>v. ''[]'')\<rparr>"


text \<open>The same world with an empty template directory.\<close>

definition no_template_world :: world where
  "no_template_world =
     demo_world\<lparr>get_template := (\<lambda>name. Inl (Exn ''TemplateNotFound'' name))\<rparr>"

definition demo_state :: state where
  "demo_state = \<lparr>smtp_log = [], wire = [], stdout = [], rand_pos = 0, boundary_draws = 0\<rparr>"

definition demo_service :: email_service where
  "demo_service = EmailService_init demo_config demo_world"

section \<open>Predicates for stating the properties\<close>

text \<open>
  \<open>emits P m\<close>: whatever the state, \<open>m\<close> only appends to the log of calls on the mail
  server, and every call it appends satisfies \<open>P\<close>.
\<close>

definition emits :: "(smtp_event \<Rightarrow> bool) \<Rightarrow> 'a io \<Rightarrow> bool" where
  "emits P m = (\<forall>st. \<exists>evs. smtp_log (snd (m st)) = smtp_log st @ evs \<and> list_all P evs)"


text \<open>
  Looking the template \<open>name\<close> up raises \<open>e\<close>, or the template is found and rendering it
  with the context \<open>ctx\<close> raises \<open>e\<close>.
\<close>

definition render_raises ::
  "email_service \<Rightarrow> string \<Rightarrow> (string \<times> pyval) list \<Rightarrow> exn \<Rightarrow> bool" where
  "render_raises self name ctx e =
     (case jinja_env self name of Inl e' \<Rightarrow> e' = e | Inr template \<Rightarrow> template ctx = Inl e)"

section \<open>Text\<close>

lemma ustr_Nil [simp]: "ustr [] = []"
  by (simp add: ustr_def)

lemma ustr_eq_Nil [simp]: "(ustr s = []) = (s = [])" "([] = ustr s) = (s = [])"
  by (auto simp: ustr_def)

lemma ustr_eq_iff [simp]: "(ustr a = ustr b) = (a = b)"
proof
  assume "ustr a = ustr b"
  then have "map (of_char :: char \<Rightarrow> nat) a = map of_char b" by (simp add: ustr_def)
  moreover have "inj (of_char :: char \<Rightarrow> nat)" by (rule inj_of_char)
  ultimately show "a = b" by (simp add: inj_map_eq_map)
qed simp

lemma ustr_append: "ustr (a @ b) = ustr a @ ustr b"
  by (simp add: ustr_def)

lemma ustr_join [simp]:
  "ustr a @ ustr b = ustr (a @ b)" "ustr a @ ustr b @ c = ustr (a @ b) @ c"
  by (simp_all add: ustr_def)

lemma length_ustr [simp]: "length (ustr s) = length s"
  by (simp add: ustr_def)

lemma of_char_less_256: "(of_char c :: nat) < 256"
proof -
  have "(of_char c :: nat) mod 256 < 256" by simp
  then show ?thesis by (simp only: of_char_mod_256)
qed

lemma not_surrogate_of_char: "\<not> is_surrogate (of_char c)"
  unfolding is_surrogate_def using of_char_less_256 [of c] by linarith

lemma not_rejects_of_char: "\<not> rejects h (of_char c)"
  by (cases h) (simp_all add: not_surrogate_of_char)

lemma utf8_encodable_ustr [simp]: "utf8_encodable h (ustr s)"
  by (induction s) (simp_all add: utf8_encodable_def ustr_def not_rejects_of_char)

lemma utf8_encodable_Nil [simp]: "utf8_encodable h []"
  by (simp add: utf8_encodable_def)

lemma utf8_encodable_append [simp]:
  "utf8_encodable h (a @ b) = (utf8_encodable h a \<and> utf8_encodable h b)"
  by (simp add: utf8_encodable_def)

lemma utf8_encodable_Cons:
  "utf8_encodable h (c # s) = (\<not> rejects h c \<and> utf8_encodable h s)"
  by (simp add: utf8_encodable_def)

lemma utf8_encodable_py_str:
  "utf8_encodable h (py_str w v) = (case v of PStr s \<Rightarrow> utf8_encodable h s | _ \<Rightarrow> True)"
  by (cases v) (simp_all add: py_str_def)

section \<open>The reset token\<close>

lemma alphabet_unreserved: "list_all unreserved_char urlsafe_alphabet"
  by (simp add: urlsafe_alphabet_def unreserved_char_def)

lemma alphabet_length: "length urlsafe_alphabet = 64"
  by (simp add: urlsafe_alphabet_def)

lemma alphabet_distinct: "distinct urlsafe_alphabet"
  by (simp add: urlsafe_alphabet_def)

lemma b64char_unreserved: "unreserved_char (b64char i)"
  using alphabet_unreserved alphabet_length
  by (simp add: b64char_def list_all_length)

lemma b64char_eq_iff: "(b64char i = b64char j) = (i mod 64 = j mod 64)"
  using alphabet_distinct alphabet_length
  by (simp add: b64char_def nth_eq_iff_index_eq)

lemma pad_reserved: "\<not> unreserved_char CHR ''=''"
  by (simp add: unreserved_char_def)

lemma url_unreserved_of_char: "url_unreserved (of_char c) = unreserved_char c"
  by (simp add: url_unreserved_def of_char_less_256)

lemma url_unreserved_ustr: "list_all url_unreserved (ustr s) = list_all unreserved_char s"
  by (induction s) (simp_all add: ustr_def url_unreserved_of_char)

lemma pad_len_simps:
  "pad_len 0 = 0" "pad_len (Suc 0) = Suc (Suc 0)" "pad_len (Suc (Suc 0)) = Suc 0"
  "pad_len (Suc (Suc (Suc n))) = pad_len n"
  by (simp_all add: pad_len_def)

lemma body_len_simps:
  "body_len 0 = 0" "body_len (Suc 0) = 2" "body_len (Suc (Suc 0)) = 3"
  "body_len (Suc (Suc (Suc n))) = body_len n + 4"
  by (simp_all add: body_len_def)

text \<open>
  The encoding of any bytes is a run of alphabet characters followed by the padding, and
  both lengths are determined by the number of bytes.
\<close>

lemma encode_shape:
  "\<exists>xs. urlsafe_b64encode bs = xs @ replicate (pad_len (length bs)) CHR ''=''
        \<and> list_all unreserved_char xs \<and> length xs = body_len (length bs)"
proof (induction bs rule: urlsafe_b64encode.induct)
  case 1
  show ?case by (simp add: pad_len_simps body_len_simps)
next
  case (2 a)
  have "urlsafe_b64encode [a] =
          [b64char (unat a * 65536 div 262144), b64char (unat a * 65536 div 4096)]
          @ replicate (pad_len (length [a])) CHR ''=''"
    by (simp add: Let_def pad_len_simps)
  then show ?case
    by (intro exI conjI, assumption) (simp_all add: b64char_unreserved body_len_simps)
next
  case (3 a b)
  have "urlsafe_b64encode [a, b] =
          [b64char ((unat a * 65536 + unat b * 256) div 262144),
           b64char ((unat a * 65536 + unat b * 256) div 4096),
           b64char ((unat a * 65536 + unat b * 256) div 64)]
          @ replicate (pad_len (length [a, b])) CHR ''=''"
    by (simp add: Let_def pad_len_simps)
  then show ?case
    by (intro exI conjI, assumption) (simp_all add: b64char_unreserved body_len_simps)
next
  case (4 a b c rest)
  then obtain xs where xs:
    "urlsafe_b64encode rest = xs @ replicate (pad_len (length rest)) CHR ''=''"
    "list_all unreserved_char xs" "length xs = body_len (length rest)"
    by blast
  define n where "n = unat a * 65536 + unat b * 256 + unat c"
  have "urlsafe_b64encode (a # b # c # rest) =
          ([b64char (n div 262144), b64char (n div 4096), b64char (n div 64), b64char n] @ xs)
          @ replicate (pad_len (length (a # b # c # rest))) CHR ''=''"
    by (simp add: Let_def pad_len_simps xs(1) n_def)
  then show ?case
    by (intro exI conjI, assumption) (simp_all add: b64char_unreserved body_len_simps xs)
qed

lemma rstrip_padding:
  assumes "list_all unreserved_char xs"
  shows "rstrip CHR ''='' (xs @ replicate k CHR ''='') = xs"
proof -
  have "dropWhile (\<lambda>x. x = CHR ''='') (rev xs) = rev xs"
  proof (cases "rev xs")
    case Nil
    then show ?thesis by simp
  next
    case (Cons y ys)
    then have "y \<in> set xs" by (metis list.set_intros(1) set_rev)
    with assms have "unreserved_char y" by (simp add: list_all_iff)
    with pad_reserved have "y \<noteq> CHR ''=''" by blast
    with Cons show ?thesis by simp
  qed
  moreover have "dropWhile (\<lambda>x. x = CHR ''='') (replicate k CHR ''='' @ rev xs)
                 = dropWhile (\<lambda>x. x = CHR ''='') (rev xs)"
    by (induction k) simp_all
  ultimately show ?thesis
    by (simp add: rstrip_def)
qed

text \<open>Stripping the padding loses nothing: putting it back gives the encoding.\<close>

lemma rstrip_encode:
  "rstrip CHR ''='' (urlsafe_b64encode bs) @ replicate (pad_len (length bs)) CHR ''=''
   = urlsafe_b64encode bs"
proof -
  obtain xs where xs:
    "urlsafe_b64encode bs = xs @ replicate (pad_len (length bs)) CHR ''=''"
    "list_all unreserved_char xs"
    using encode_shape [of bs] by blast
  then show ?thesis by (simp add: rstrip_padding)
qed

lemma unat8_bound: "unat (a :: 8 word) < 256"
  using unsigned_less [of a, where ?'a = nat] by simp

lemma qr_unique:
  fixes q r q' r' k :: nat
  assumes "r < k" and "r' < k" and "q * k + r = q' * k + r'"
  shows "q = q' \<and> r = r'"
proof -
  from assms(1) have k: "0 < k" by simp
  have "(q * k + r) div k = q" "(q * k + r) mod k = r"
    using assms(1) k by simp_all
  moreover have "(q' * k + r') div k = q'" "(q' * k + r') mod k = r'"
    using assms(2) k by simp_all
  ultimately show ?thesis using assms(3) by simp
qed

lemma divmod_unique:
  fixes n m k :: nat
  assumes "n div k = m div k" and "n mod k = m mod k"
  shows "n = m"
  using assms by (metis div_mult_mod_eq)

lemma bytes3_eq:
  fixes a b c a' b' c' :: "8 word"
  assumes "unat a * 65536 + unat b * 256 + unat c = unat a' * 65536 + unat b' * 256 + unat c'"
  shows "a = a' \<and> b = b' \<and> c = c'"
proof -
  from assms have "(unat a * 256 + unat b) * 256 + unat c
                   = (unat a' * 256 + unat b') * 256 + unat c'" by simp
  with unat8_bound [of c] unat8_bound [of c']
  have 1: "unat a * 256 + unat b = unat a' * 256 + unat b' \<and> unat c = unat c'"
    by (rule qr_unique)
  then have "unat a * 256 + unat b = unat a' * 256 + unat b'" by simp
  with unat8_bound [of b] unat8_bound [of b']
  have 2: "unat a = unat a' \<and> unat b = unat b'"
    by (rule qr_unique)
  from 1 2 show ?thesis by (simp add: word_unat_eq_iff)
qed

lemma group_eq:
  fixes n m :: nat
  assumes "n < 16777216" and "m < 16777216"
    and d3: "(n div 262144) mod 64 = (m div 262144) mod 64"
    and d2: "(n div 4096) mod 64 = (m div 4096) mod 64"
    and d1: "(n div 64) mod 64 = (m div 64) mod 64"
    and d0: "n mod 64 = m mod 64"
  shows "n = m"
proof -
  have "n div 262144 < 64" "m div 262144 < 64"
    using assms(1,2) by (simp_all add: less_mult_imp_div_less)
  with d3 have e3: "n div 262144 = m div 262144" by simp
  have s2: "\<And>x::nat. x div 4096 div 64 = x div 262144"
    by (simp add: div_mult2_eq [symmetric])
  have s1: "\<And>x::nat. x div 64 div 64 = x div 4096"
    by (simp add: div_mult2_eq [symmetric])
  from e3 have "n div 4096 div 64 = m div 4096 div 64" by (simp add: s2)
  then have e2: "n div 4096 = m div 4096" using d2 by (rule divmod_unique)
  then have "n div 64 div 64 = m div 64 div 64" by (simp add: s1)
  then have e1: "n div 64 = m div 64" using d1 by (rule divmod_unique)
  then show ?thesis using d0 by (rule divmod_unique)
qed

lemma group_bound:
  fixes a b c :: "8 word"
  shows "unat a * 65536 + unat b * 256 + unat c < 16777216"
  using unat8_bound [of a] unat8_bound [of b] unat8_bound [of c] by simp

lemma group_chars_eq:
  fixes a b c a' b' c' :: "8 word"
  assumes "b64char ((unat a * 65536 + unat b * 256 + unat c) div 262144)
           = b64char ((unat a' * 65536 + unat b' * 256 + unat c') div 262144)"
    and "b64char ((unat a * 65536 + unat b * 256 + unat c) div 4096)
           = b64char ((unat a' * 65536 + unat b' * 256 + unat c') div 4096)"
    and "(unat a * 65536 + unat b * 256 + unat c) div 64 mod 64
           = (unat a' * 65536 + unat b' * 256 + unat c') div 64 mod 64"
    and "(unat a * 65536 + unat b * 256 + unat c) mod 64
           = (unat a' * 65536 + unat b' * 256 + unat c') mod 64"
  shows "a = a' \<and> b = b' \<and> c = c'"
proof -
  from assms(1) have 1: "(unat a * 65536 + unat b * 256 + unat c) div 262144 mod 64
           = (unat a' * 65536 + unat b' * 256 + unat c') div 262144 mod 64"
    by (simp only: b64char_eq_iff)
  from assms(2) have 2: "(unat a * 65536 + unat b * 256 + unat c) div 4096 mod 64
           = (unat a' * 65536 + unat b' * 256 + unat c') div 4096 mod 64"
    by (simp only: b64char_eq_iff)
  have "unat a * 65536 + unat b * 256 + unat c = unat a' * 65536 + unat b' * 256 + unat c'"
    using group_bound [of a b c] group_bound [of a' b' c'] 1 2 assms(3) assms(4)
    by (rule group_eq)
  then show ?thesis by (rule bytes3_eq)
qed

lemma mod64_zero: "(x * 65536 + y * 256) mod 64 = (0::nat)"
  by simp

lemma div64_mod64_zero: "x * 65536 div 64 mod 64 = (0::nat)"
  by simp

text \<open>The encoding determines the bytes: no two byte strings of one length share it.\<close>

lemma urlsafe_b64encode_inj:
  "length bs = length bs' \<Longrightarrow> urlsafe_b64encode bs = urlsafe_b64encode bs' \<Longrightarrow> bs = bs'"
proof (induction bs arbitrary: bs' rule: urlsafe_b64encode.induct)
  case 1
  then show ?case by simp
next
  case (2 a)
  then obtain a' where bs': "bs' = [a']" by (cases bs') simp_all
  from "2.prems"(2) have eq:
    "b64char (unat a * 65536 div 262144) = b64char (unat a' * 65536 div 262144)"
    "b64char (unat a * 65536 div 4096) = b64char (unat a' * 65536 div 4096)"
    unfolding bs' by (simp_all only: urlsafe_b64encode.simps Let_def list.inject)
  have "a = a' \<and> (0::8 word) = 0 \<and> (0::8 word) = 0"
  proof (rule group_chars_eq)
    show "b64char ((unat a * 65536 + unat (0::8 word) * 256 + unat (0::8 word)) div 262144)
           = b64char ((unat a' * 65536 + unat (0::8 word) * 256 + unat (0::8 word)) div 262144)"
      using eq(1) by simp
    show "b64char ((unat a * 65536 + unat (0::8 word) * 256 + unat (0::8 word)) div 4096)
           = b64char ((unat a' * 65536 + unat (0::8 word) * 256 + unat (0::8 word)) div 4096)"
      using eq(2) by simp
    show "(unat a * 65536 + unat (0::8 word) * 256 + unat (0::8 word)) div 64 mod 64
           = (unat a' * 65536 + unat (0::8 word) * 256 + unat (0::8 word)) div 64 mod 64"
      by simp
    show "(unat a * 65536 + unat (0::8 word) * 256 + unat (0::8 word)) mod 64
           = (unat a' * 65536 + unat (0::8 word) * 256 + unat (0::8 word)) mod 64"
      by simp
  qed
  with bs' show ?case by simp
next
  case (3 a b)
  then obtain a' b' where bs': "bs' = [a', b']"
    by (cases bs'; cases "tl bs'") simp_all
  from "3.prems"(2) have eq:
    "b64char ((unat a * 65536 + unat b * 256) div 262144)
       = b64char ((unat a' * 65536 + unat b' * 256) div 262144)"
    "b64char ((unat a * 65536 + unat b * 256) div 4096)
       = b64char ((unat a' * 65536 + unat b' * 256) div 4096)"
    "b64char ((unat a * 65536 + unat b * 256) div 64)
       = b64char ((unat a' * 65536 + unat b' * 256) div 64)"
    unfolding bs' by (simp_all only: urlsafe_b64encode.simps Let_def list.inject)
  have "a = a' \<and> b = b' \<and> (0::8 word) = 0"
  proof (rule group_chars_eq)
    show "b64char ((unat a * 65536 + unat b * 256 + unat (0::8 word)) div 262144)
           = b64char ((unat a' * 65536 + unat b' * 256 + unat (0::8 word)) div 262144)"
      using eq(1) by simp
    show "b64char ((unat a * 65536 + unat b * 256 + unat (0::8 word)) div 4096)
           = b64char ((unat a' * 65536 + unat b' * 256 + unat (0::8 word)) div 4096)"
      using eq(2) by simp
    show "(unat a * 65536 + unat b * 256 + unat (0::8 word)) div 64 mod 64
           = (unat a' * 65536 + unat b' * 256 + unat (0::8 word)) div 64 mod 64"
      using eq(3) by (simp only: b64char_eq_iff unat_0 add_0_right)
    show "(unat a * 65536 + unat b * 256 + unat (0::8 word)) mod 64
           = (unat a' * 65536 + unat b' * 256 + unat (0::8 word)) mod 64"
      by simp
  qed
  with bs' show ?case by simp
next
  case (4 a b c rest)
  then obtain a' b' c' rest' where bs': "bs' = a' # b' # c' # rest'"
    by (cases bs'; cases "tl bs'"; cases "tl (tl bs')") simp_all
  from "4.prems"(2) have eq:
    "b64char ((unat a * 65536 + unat b * 256 + unat c) div 262144)
       = b64char ((unat a' * 65536 + unat b' * 256 + unat c') div 262144)"
    "b64char ((unat a * 65536 + unat b * 256 + unat c) div 4096)
       = b64char ((unat a' * 65536 + unat b' * 256 + unat c') div 4096)"
    "b64char ((unat a * 65536 + unat b * 256 + unat c) div 64)
       = b64char ((unat a' * 65536 + unat b' * 256 + unat c') div 64)"
    "b64char (unat a * 65536 + unat b * 256 + unat c)
       = b64char (unat a' * 65536 + unat b' * 256 + unat c')"
    "urlsafe_b64encode rest = urlsafe_b64encode rest'"
    unfolding bs'
    by (simp_all only: urlsafe_b64encode.simps Let_def list.inject append_Cons append_Nil)
  from eq(3) have 3: "(unat a * 65536 + unat b * 256 + unat c) div 64 mod 64
           = (unat a' * 65536 + unat b' * 256 + unat c') div 64 mod 64"
    by (simp only: b64char_eq_iff)
  from eq(4) have 4: "(unat a * 65536 + unat b * 256 + unat c) mod 64
           = (unat a' * 65536 + unat b' * 256 + unat c') mod 64"
    by (simp only: b64char_eq_iff)
  from eq(1) eq(2) 3 4 have "a = a' \<and> b = b' \<and> c = c'" by (rule group_chars_eq)
  moreover from "4.prems"(1) have "length rest = length rest'" unfolding bs' by simp
  then have "rest = rest'" using eq(5) by (rule "4.IH" [OF refl])
  ultimately show ?case by (simp add: bs')
qed

lemma token_urlsafe_bytes:
  "fst (token_urlsafe w n st) =
     ustr (rstrip CHR ''='' (urlsafe_b64encode (map (urandom w) [rand_pos st ..< rand_pos st + n])))"
  by (simp add: token_urlsafe_def token_bytes_def)

lemma token_urlsafe_shape:
  "length (fst (token_urlsafe w n st)) = body_len n
   \<and> list_all url_unreserved (fst (token_urlsafe w n st))"
proof -
  define tok where "tok = map (urandom w) [rand_pos st ..< rand_pos st + n]"
  have len: "length tok = n" by (simp add: tok_def)
  obtain xs where xs:
    "urlsafe_b64encode tok = xs @ replicate (pad_len n) CHR ''=''"
    "list_all unreserved_char xs" "length xs = body_len n"
    using encode_shape [of tok] len by auto
  have "fst (token_urlsafe w n st) = ustr (rstrip CHR ''='' (urlsafe_b64encode tok))"
    by (simp add: token_urlsafe_bytes tok_def)
  with xs show ?thesis
    by (simp add: rstrip_padding url_unreserved_ustr)
qed

lemma token_urlsafe_inj:
  assumes "fst (token_urlsafe w' n st') = fst (token_urlsafe w n st)"
  shows "map (urandom w') [rand_pos st' ..< rand_pos st' + n]
         = map (urandom w) [rand_pos st ..< rand_pos st + n]"
proof -
  let ?bs' = "map (urandom w') [rand_pos st' ..< rand_pos st' + n]"
  let ?bs = "map (urandom w) [rand_pos st ..< rand_pos st + n]"
  from assms have "rstrip CHR ''='' (urlsafe_b64encode ?bs')
                   = rstrip CHR ''='' (urlsafe_b64encode ?bs)"
    by (simp add: token_urlsafe_bytes)
  then have "rstrip CHR ''='' (urlsafe_b64encode ?bs') @ replicate (pad_len (length ?bs')) CHR ''=''
             = rstrip CHR ''='' (urlsafe_b64encode ?bs) @ replicate (pad_len (length ?bs)) CHR ''=''"
    by simp
  then have "urlsafe_b64encode ?bs' = urlsafe_b64encode ?bs"
    by (simp only: rstrip_encode)
  moreover have "length ?bs' = length ?bs" by simp
  ultimately show ?thesis by (rule urlsafe_b64encode_inj [rotated])
qed

text \<open>
  C6. Every token returned by \<open>generate_reset_token\<close> is built from the next 32 bytes of
  the secure random source, which it consumes: it is their unpadded URL-safe Base64 text,
  and two tokens are equal only if the two runs of 32 bytes are. It has 43 characters, and
  every character is one that needs no percent-encoding in a URL query parameter.
\<close>

theorem generate_reset_token_shape:
  "length (fst (generate_reset_token w st)) = 43
   \<and> list_all url_unreserved (fst (generate_reset_token w st))
   \<and> fst (generate_reset_token w st) =
       ustr (rstrip CHR ''=''
               (urlsafe_b64encode (map (urandom w) [rand_pos st ..< rand_pos st + 32])))
   \<and> rand_pos (snd (generate_reset_token w st)) = rand_pos st + 32
   \<and> (fst (generate_reset_token w' st') = fst (generate_reset_token w st)
        \<longrightarrow> map (urandom w') [rand_pos st' ..< rand_pos st' + 32]
            = map (urandom w) [rand_pos st ..< rand_pos st + 32])"
proof -
  have "body_len 32 = 43" by (simp add: body_len_def)
  with token_urlsafe_shape [of w 32 st]
  have "length (fst (generate_reset_token w st)) = 43
        \<and> list_all url_unreserved (fst (generate_reset_token w st))"
    by (simp add: generate_reset_token_def)
  moreover have "fst (generate_reset_token w st) =
       ustr (rstrip CHR ''=''
               (urlsafe_b64encode (map (urandom w) [rand_pos st ..< rand_pos st + 32])))"
    by (simp add: generate_reset_token_def token_urlsafe_bytes)
  moreover have "rand_pos (snd (generate_reset_token w st)) = rand_pos st + 32"
    by (simp add: generate_reset_token_def token_urlsafe_def token_bytes_def)
  moreover have "fst (generate_reset_token w' st') = fst (generate_reset_token w st)
        \<longrightarrow> map (urandom w') [rand_pos st' ..< rand_pos st' + 32]
            = map (urandom w) [rand_pos st ..< rand_pos st + 32]"
    unfolding generate_reset_token_def by (rule impI) (rule token_urlsafe_inj)
  ultimately show ?thesis by blast
qed

section \<open>Calls on the mail server\<close>



lemma emits_lift: "emits P (lift r)"
  by (simp add: emits_def lift_def)













lemmas io_defs =
  ret_def lift_def bind_def try_except_def with_stmt_def print_def smtp_call_def call_def

section \<open>The transmitter\<close>


lemma error_line_encodable:
  "utf8_encodable Strict (error_line w to_email e) = utf8_encodable Strict (py_str w to_email)"
  by (simp add: error_line_def)

lemma sent_line_encodable:
  "utf8_encodable Strict (sent_line w to_email) = utf8_encodable Strict (py_str w to_email)"
  by (simp add: sent_line_def)


lemma demo_world_sel:
  "smtp_connect demo_world host port = None"
  "smtp_login demo_world user password = None"
  "flatten demo_world = demo_flatten"
  "smtp_sendmail demo_world flatmsg = None"
  "smtp_exit demo_world = None"
  "get_template demo_world name = Inr demo_render"
  "randrange demo_world i = i"
  by (simp_all add: demo_world_def)


lemma demo_service_sel:
  "smtp_server demo_service = ustr ''smtp.gmail.com''"
  "smtp_port demo_service = 465"
  "admin_email demo_service = Some (ustr ''admin@example.com'')"
  "admin_password demo_service = Some (ustr ''app-password'')"
  "jinja_env demo_service name = Inr demo_render"
  by (simp_all add: demo_service_def EmailService_init_def demo_config_def demo_world_def)

lemma demo_state_sel:
  "smtp_log demo_state = []" "wire demo_state = []" "stdout demo_state = []"
  "rand_pos demo_state = 0" "boundary_draws demo_state = 0"
  by (simp_all add: demo_state_def)

lemma py_str_PStr [simp]: "py_str w (PStr s) = s"
  by (simp add: py_str_def)

lemmas compose_defs =
  send_email_compose_def MIMEMultipart_new_def set_header_def attach_def py_opt_def Let_def

lemma ascii_charset: "filter (\<lambda>c. 128 \<le> c) (ustr s) = [] \<Longrightarrow> charset_of (ustr s) = ''us-ascii''"
  by (simp add: charset_of_def)

lemma demo_compose_html:
  "send_email_compose demo_service (PStr (ustr ''a@b.com'')) (PStr (ustr ''Hi''))
     (PStr (ustr ''<p>x</p>'')) PNone =
     Inr \<lparr>headers = [(''Content-Type'', PStr (ustr ''multipart/alternative'')),
                     (''MIME-Version'', PStr (ustr ''1.0'')),
                     (''Subject'', PStr (ustr ''Hi'')),
                     (''From'', PStr (ustr ''admin@example.com'')),
                     (''To'', PStr (ustr ''a@b.com''))],
          parts = [MIMEText (ustr ''<p>x</p>'') ''html'' ''us-ascii'']\<rparr>"
  by (simp add: compose_defs demo_service_sel charset_of_def) (simp add: ustr_def)



text \<open>
  The recipient is printed inside the \<open>try\<close> and again inside the \<open>except\<close> handler.
  When standard output cannot encode it, the second \<open>print\<close> raises in the handler and
  the \<open>UnicodeEncodeError\<close> leaves \<open>send_email\<close>.
\<close>

lemma send_email_unprintable_recipient:
  assumes "\<not> utf8_encodable Strict (py_str w to_email)"
  shows "\<exists>e. fst (send_email w self to_email subject html_content text_content st)
             = Inl (utf8_encode_error Strict (error_line w to_email e))"
proof -
  let ?body = "bind (lift (send_email_compose self to_email subject html_content text_content))
          (\<lambda>msg. bind (send_email_transmit w self msg)
          (\<lambda>u. bind (print (sent_line w to_email))
          (\<lambda>u. ret True)))"
  obtain r st' where r: "?body st = (r, st')" by (cases "?body st")
  from assms r obtain e where e: "r = Inl e"
    by (cases r) (auto simp: io_defs sent_line_encodable split: sum.splits prod.splits if_splits)
  with r assms have "fst (send_email w self to_email subject html_content text_content st)
                     = Inl (utf8_encode_error Strict (error_line w to_email e))"
    by (simp add: send_email_def try_except_def bind_def print_def error_line_encodable)
  then show ?thesis ..
qed

lemma offending_ustr:
  "offending h (ustr s @ r) i = offending h r (i + length s)"
  by (induction s arbitrary: i) (simp_all add: ustr_def not_rejects_of_char)

lemma takeWhile_surrogate_ustr: "takeWhile is_surrogate (ustr s @ r) = (if s = [] then takeWhile is_surrogate r else [])"
  by (cases s) (simp_all add: ustr_def not_surrogate_of_char)

lemma lone_surrogate_error:
  "utf8_encode_error Strict (error_line w (PStr (0xD800 # ustr ''@b.com'')) e) =
     Exn ''UnicodeEncodeError''
       (quoted ''utf-8'' @ '' codec can'' @ [CHR 0x27] @ ''t encode character ''
        @ quoted ([CHR 0x5C] @ ''ud800'') @ '' in position 23: surrogates not allowed'')"
  by (simp add: utf8_encode_error_def error_line_def offending_ustr is_surrogate_def
        takeWhile_surrogate_ustr hex4_def hex_digit_def
        del: ustr_join)

lemma send_email_lone_surrogate:
  "fst (send_email w self (PStr (0xD800 # ustr ''@b.com'')) subject html_content text_content st)
   = Inl (Exn ''UnicodeEncodeError''
       (quoted ''utf-8'' @ '' codec can'' @ [CHR 0x27] @ ''t encode character ''
        @ quoted ([CHR 0x5C] @ ''ud800'') @ '' in position 23: surrogates not allowed''))"
proof -
  have "\<not> utf8_encodable Strict (py_str w (PStr (0xD800 # ustr ''@b.com'')))"
    by (simp add: utf8_encodable_def is_surrogate_def)
  from send_email_unprintable_recipient [OF this]
  show ?thesis by (auto simp: lone_surrogate_error)
qed

section \<open>The composed message\<close>

lemma MIMEText_new_Inr:
  "(MIMEText_new v sub = Inr p)
   = (\<exists>s. v = PStr s \<and> utf8_encodable SurrogateEscape s \<and> p = MIMEText s sub (charset_of s))"
  by (cases v) auto

lemma MIMEText_new_ok:
  "(\<exists>p. MIMEText_new v sub = Inr p) = (\<exists>s. v = PStr s \<and> utf8_encodable SurrogateEscape s)"
  by (cases v) auto

text \<open>
  What \<open>send_email\<close> composes when it composes a message: the two headers of the
  multipart, then Subject, From and To, and the parts.
\<close>

lemma send_email_compose_Inr:
  assumes "send_email_compose self to_email subject html_content text_content = Inr m"
  shows "\<exists>hx. html_content = PStr hx
           \<and> headers m = [(''Content-Type'', PStr (ustr ''multipart/alternative'')),
                          (''MIME-Version'', PStr (ustr ''1.0'')),
                          (''Subject'', subject),
                          (''From'', py_opt (admin_email self)),
                          (''To'', to_email)]
           \<and> (\<not> truthy text_content \<longrightarrow> parts m = [MIMEText hx ''html'' (charset_of hx)])
           \<and> (truthy text_content \<longrightarrow>
                (\<exists>tx. text_content = PStr tx
                   \<and> parts m = [MIMEText tx ''plain'' (charset_of tx),
                                MIMEText hx ''html'' (charset_of hx)]))"
proof (cases "truthy text_content")
  case False
  with assms obtain p where p: "MIMEText_new html_content ''html'' = Inr p"
    by (auto simp: send_email_compose_def Let_def split: sum.splits)
  then obtain hx where hx: "html_content = PStr hx" "p = MIMEText hx ''html'' (charset_of hx)"
    by (auto simp: MIMEText_new_Inr)
  with assms False p show ?thesis
    by (auto simp: send_email_compose_def MIMEMultipart_new_def set_header_def attach_def Let_def)
next
  case True
  with assms obtain q where q: "MIMEText_new text_content ''plain'' = Inr q"
    by (auto simp: send_email_compose_def Let_def split: sum.splits)
  with assms True obtain p where p: "MIMEText_new html_content ''html'' = Inr p"
    by (auto simp: send_email_compose_def Let_def split: sum.splits)
  from q obtain tx where tx: "text_content = PStr tx" "q = MIMEText tx ''plain'' (charset_of tx)"
    by (auto simp: MIMEText_new_Inr)
  from p obtain hx where hx: "html_content = PStr hx" "p = MIMEText hx ''html'' (charset_of hx)"
    by (auto simp: MIMEText_new_Inr)
  from assms True tx hx p q show ?thesis
    by (auto simp: send_email_compose_def MIMEMultipart_new_def set_header_def attach_def Let_def)
qed

lemma send_email_compose_ok:
  "(\<exists>m. send_email_compose self to_email subject html_content text_content = Inr m)
   = ((\<exists>hx. html_content = PStr hx \<and> utf8_encodable SurrogateEscape hx)
      \<and> (truthy text_content \<longrightarrow>
           (\<exists>tx. text_content = PStr tx \<and> utf8_encodable SurrogateEscape tx)))"
proof (cases "truthy text_content")
  case False
  then show ?thesis
    using MIMEText_new_ok [of html_content "''html''"]
    by (auto simp: send_email_compose_def Let_def split: sum.splits)
next
  case True
  then show ?thesis
    using MIMEText_new_ok [of html_content "''html''"]
      MIMEText_new_ok [of text_content "''plain''"]
    by (auto simp: send_email_compose_def Let_def split: sum.splits)
qed

text \<open>
  C5 (as amended). Whenever \<open>send_email\<close> composes a message, \<open>html_content\<close> is a str
  and: when \<open>text_content\<close> is absent or empty (any falsy value) the multipart/alternative
  message has exactly one part, the HTML part; when \<open>text_content\<close> is truthy it is a
  non-empty str and the message has exactly two parts, the plain part first and the HTML
  part second. A message is composed exactly when \<open>html_content\<close> is a str that
  \<open>MIMEText\<close> can encode and \<open>text_content\<close> is falsy or such a str.
\<close>

theorem send_email_compose_parts:
  "(send_email_compose self to_email subject html_content text_content = Inr m \<longrightarrow>
      (\<exists>hx. html_content = PStr hx
         \<and> (\<not> truthy text_content \<longrightarrow> parts m = [MIMEText hx ''html'' (charset_of hx)])
         \<and> (truthy text_content \<longrightarrow>
              (\<exists>tx. text_content = PStr tx \<and> tx \<noteq> []
                 \<and> parts m = [MIMEText tx ''plain'' (charset_of tx),
                              MIMEText hx ''html'' (charset_of hx)]))))
   \<and> ((\<exists>m. send_email_compose self to_email subject html_content text_content = Inr m)
       = ((\<exists>hx. html_content = PStr hx \<and> utf8_encodable SurrogateEscape hx)
          \<and> (truthy text_content \<longrightarrow>
               (\<exists>tx. text_content = PStr tx \<and> utf8_encodable SurrogateEscape tx))))"
proof (intro conjI impI)
  assume "send_email_compose self to_email subject html_content text_content = Inr m"
  from send_email_compose_Inr [OF this]
  show "\<exists>hx. html_content = PStr hx
         \<and> (\<not> truthy text_content \<longrightarrow> parts m = [MIMEText hx ''html'' (charset_of hx)])
         \<and> (truthy text_content \<longrightarrow>
              (\<exists>tx. text_content = PStr tx \<and> tx \<noteq> []
                 \<and> parts m = [MIMEText tx ''plain'' (charset_of tx),
                              MIMEText hx ''html'' (charset_of hx)]))"
    by auto
next
  show "(\<exists>m. send_email_compose self to_email subject html_content text_content = Inr m)
       = ((\<exists>hx. html_content = PStr hx \<and> utf8_encodable SurrogateEscape hx)
          \<and> (truthy text_content \<longrightarrow>
               (\<exists>tx. text_content = PStr tx \<and> utf8_encodable SurrogateEscape tx)))"
    by (rule send_email_compose_ok)
qed

lemma demo_compose_text:
  "send_email_compose demo_service (PStr (ustr ''a@b.com'')) (PStr (ustr ''Hi''))
     (PStr (ustr ''<p>x</p>'')) (PStr (ustr ''Hello'')) =
     Inr \<lparr>headers = [(''Content-Type'', PStr (ustr ''multipart/alternative'')),
                     (''MIME-Version'', PStr (ustr ''1.0'')),
                     (''Subject'', PStr (ustr ''Hi'')),
                     (''From'', PStr (ustr ''admin@example.com'')),
                     (''To'', PStr (ustr ''a@b.com''))],
          parts = [MIMEText (ustr ''Hello'') ''plain'' ''us-ascii'',
                   MIMEText (ustr ''<p>x</p>'') ''html'' ''us-ascii'']\<rparr>"
  by (simp add: compose_defs demo_service_sel charset_of_def) (simp add: ustr_def)

theorem send_email_compose_parts_witness:
  "send_email_compose demo_service (PStr (ustr ''a@b.com'')) (PStr (ustr ''Hi''))
     (PStr (ustr ''<p>x</p>'')) PNone =
     Inr \<lparr>headers = [(''Content-Type'', PStr (ustr ''multipart/alternative'')),
                     (''MIME-Version'', PStr (ustr ''1.0'')),
                     (''Subject'', PStr (ustr ''Hi'')),
                     (''From'', PStr (ustr ''admin@example.com'')),
                     (''To'', PStr (ustr ''a@b.com''))],
          parts = [MIMEText (ustr ''<p>x</p>'') ''html'' ''us-ascii'']\<rparr>
   \<and> \<not> truthy PNone
   \<and> send_email_compose demo_service (PStr (ustr ''a@b.com'')) (PStr (ustr ''Hi''))
     (PStr (ustr ''<p>x</p>'')) (PStr (ustr ''Hello'')) =
     Inr \<lparr>headers = [(''Content-Type'', PStr (ustr ''multipart/alternative'')),
                     (''MIME-Version'', PStr (ustr ''1.0'')),
                     (''Subject'', PStr (ustr ''Hi'')),
                     (''From'', PStr (ustr ''admin@example.com'')),
                     (''To'', PStr (ustr ''a@b.com''))],
          parts = [MIMEText (ustr ''Hello'') ''plain'' ''us-ascii'',
                   MIMEText (ustr ''<p>x</p>'') ''html'' ''us-ascii'']\<rparr>
   \<and> truthy (PStr (ustr ''Hello''))
   \<and> utf8_encodable SurrogateEscape (ustr ''<p>x</p>'')
   \<and> utf8_encodable SurrogateEscape (ustr ''Hello'')"
  using send_email_compose_parts [of demo_service "PStr (ustr ''a@b.com'')" "PStr (ustr ''Hi'')"
      "PStr (ustr ''<p>x</p>'')" PNone
      "\<lparr>headers = [(''Content-Type'', PStr (ustr ''multipart/alternative'')),
                     (''MIME-Version'', PStr (ustr ''1.0'')),
                     (''Subject'', PStr (ustr ''Hi'')),
                     (''From'', PStr (ustr ''admin@example.com'')),
                     (''To'', PStr (ustr ''a@b.com''))],
          parts = [MIMEText (ustr ''<p>x</p>'') ''html'' ''us-ascii'']\<rparr>"]
    send_email_compose_parts [of demo_service "PStr (ustr ''a@b.com'')" "PStr (ustr ''Hi'')"
      "PStr (ustr ''<p>x</p>'')" "PStr (ustr ''Hello'')"
      "\<lparr>headers = [(''Content-Type'', PStr (ustr ''multipart/alternative'')),
                     (''MIME-Version'', PStr (ustr ''1.0'')),
                     (''Subject'', PStr (ustr ''Hi'')),
                     (''From'', PStr (ustr ''admin@example.com'')),
                     (''To'', PStr (ustr ''a@b.com''))],
          parts = [MIMEText (ustr ''Hello'') ''plain'' ''us-ascii'',
                   MIMEText (ustr ''<p>x</p>'') ''html'' ''us-ascii'']\<rparr>"]
  by (simp add: demo_compose_html demo_compose_text)

text \<open>
  An empty \<open>text_content\<close> is provided and is not \<open>None\<close>, yet the message has one part.
  And an \<open>html_content\<close> that is a lone surrogate makes \<open>MIMEText\<close> raise, so that no
  message is composed at all.
\<close>

theorem send_email_empty_text_counterexample:
  "PStr [] \<noteq> PNone
   \<and> send_email_compose demo_service (PStr (ustr ''a@b.com'')) (PStr (ustr ''Hi''))
        (PStr (ustr ''<p>x</p>'')) (PStr []) =
        Inr \<lparr>headers = [(''Content-Type'', PStr (ustr ''multipart/alternative'')),
                        (''MIME-Version'', PStr (ustr ''1.0'')),
                        (''Subject'', PStr (ustr ''Hi'')),
                        (''From'', PStr (ustr ''admin@example.com'')),
                        (''To'', PStr (ustr ''a@b.com''))],
             parts = [MIMEText (ustr ''<p>x</p>'') ''html'' ''us-ascii'']\<rparr>
   \<and> send_email_compose demo_service (PStr (ustr ''a@b.com'')) (PStr (ustr ''Hi''))
        (PStr [0xD800]) PNone =
        Inl (Exn ''UnicodeEncodeError''
               (quoted ''utf-8'' @ '' codec can'' @ [CHR 0x27] @ ''t encode character ''
                @ quoted ([CHR 0x5C] @ ''ud800'')
                @ '' in position 0: surrogates not allowed''))"
proof (intro conjI)
  show "PStr [] \<noteq> PNone" by simp
  show "send_email_compose demo_service (PStr (ustr ''a@b.com'')) (PStr (ustr ''Hi''))
        (PStr (ustr ''<p>x</p>'')) (PStr []) =
        Inr \<lparr>headers = [(''Content-Type'', PStr (ustr ''multipart/alternative'')),
                        (''MIME-Version'', PStr (ustr ''1.0'')),
                        (''Subject'', PStr (ustr ''Hi'')),
                        (''From'', PStr (ustr ''admin@example.com'')),
                        (''To'', PStr (ustr ''a@b.com''))],
             parts = [MIMEText (ustr ''<p>x</p>'') ''html'' ''us-ascii'']\<rparr>"
    by (simp add: compose_defs demo_service_sel charset_of_def) (simp add: ustr_def)
  show "send_email_compose demo_service (PStr (ustr ''a@b.com'')) (PStr (ustr ''Hi''))
        (PStr [0xD800]) PNone =
        Inl (Exn ''UnicodeEncodeError''
               (quoted ''utf-8'' @ '' codec can'' @ [CHR 0x27] @ ''t encode character ''
                @ quoted ([CHR 0x5C] @ ''ud800'')
                @ '' in position 0: surrogates not allowed''))"
    by (simp add: compose_defs utf8_encodable_def utf8_encode_error_def is_surrogate_def
          escapable_def hex4_def hex_digit_def)
qed

section \<open>The bytes handed to the transmitter\<close>

text \<open>
  The bytes one call of \<open>send_email\<close> passes on: none when composition, connection or
  login fails or the message cannot be flattened, otherwise the composed message flattened
  with the number drawn for this call.
\<close>

lemma send_email_wire:
  "new_wire st (snd (send_email w self to_email subject html_content text_content st)) =
     (case send_email_compose self to_email subject html_content text_content of
        Inl e \<Rightarrow> []
      | Inr m \<Rightarrow>
          if smtp_connect w (smtp_server self) (smtp_port self) = None
             \<and> smtp_login w (py_opt (admin_email self)) (py_opt (admin_password self)) = None
          then (case flatten w m (randrange w (boundary_draws st)) of
                  Inl e \<Rightarrow> []
                | Inr flatmsg \<Rightarrow> [flatmsg])
          else [])"
  by (simp add: send_email_def send_email_transmit_def send_message_def io_defs Let_def
        new_wire_def split: sum.splits option.splits)

lemma ascii_bytes_ustr [simp]: "ascii_bytes (ustr s) = s"
  by (induction s) (simp_all add: ascii_bytes_def ustr_def)

text \<open>
  C3 (as amended). Two calls of \<open>send_email\<close> on the same service with the same
  \<open>to_email\<close>, \<open>subject\<close>, \<open>html_content\<close> and \<open>text_content\<close> compose the same
  message, with the same headers in the same order and the same parts in the same order.
  The bytes each call passes on are that one message flattened with the number drawn for
  the boundary in that call: they are the same bytes whenever the two numbers are.
\<close>

theorem send_email_same_message:
  assumes "b1 \<in> set (new_wire st1
             (snd (send_email w self to_email subject html_content text_content st1)))"
    and "b2 \<in> set (new_wire st2
             (snd (send_email w self to_email subject html_content text_content st2)))"
  shows "\<exists>m hx. send_email_compose self to_email subject html_content text_content = Inr m
           \<and> html_content = PStr hx
           \<and> headers m = [(''Content-Type'', PStr (ustr ''multipart/alternative'')),
                          (''MIME-Version'', PStr (ustr ''1.0'')),
                          (''Subject'', subject),
                          (''From'', py_opt (admin_email self)),
                          (''To'', to_email)]
           \<and> (\<not> truthy text_content \<longrightarrow> parts m = [MIMEText hx ''html'' (charset_of hx)])
           \<and> (truthy text_content \<longrightarrow>
                (\<exists>tx. text_content = PStr tx
                   \<and> parts m = [MIMEText tx ''plain'' (charset_of tx),
                                MIMEText hx ''html'' (charset_of hx)]))
           \<and> flatten w m (randrange w (boundary_draws st1)) = Inr b1
           \<and> flatten w m (randrange w (boundary_draws st2)) = Inr b2
           \<and> (randrange w (boundary_draws st1) = randrange w (boundary_draws st2)
                \<longrightarrow> b1 = b2)"
proof (cases "send_email_compose self to_email subject html_content text_content")
  case (Inl e)
  with assms(1) show ?thesis by (simp add: send_email_wire)
next
  case (Inr m)
  have flat: "\<And>b st. b \<in> set (new_wire st
             (snd (send_email w self to_email subject html_content text_content st)))
           \<Longrightarrow> flatten w m (randrange w (boundary_draws st)) = Inr b"
  proof -
    fix b st
    assume "b \<in> set (new_wire st
             (snd (send_email w self to_email subject html_content text_content st)))"
    then have b: "b \<in> set (if smtp_connect w (smtp_server self) (smtp_port self) = None
             \<and> smtp_login w (py_opt (admin_email self)) (py_opt (admin_password self)) = None
          then (case flatten w m (randrange w (boundary_draws st)) of
                  Inl e \<Rightarrow> []
                | Inr flatmsg \<Rightarrow> [flatmsg])
          else [])"
      unfolding send_email_wire Inr sum.case .
    show "flatten w m (randrange w (boundary_draws st)) = Inr b"
    proof (cases "flatten w m (randrange w (boundary_draws st))")
      case (Inl e)
      from b have "b \<in> set ([] :: string list)"
        unfolding Inl sum.case if_cancel .
      then have False by (simp only: list.set empty_iff)
      then show ?thesis ..
    next
      case (Inr flatmsg)
      with b show ?thesis
        by (cases "smtp_connect w (smtp_server self) (smtp_port self) = None
             \<and> smtp_login w (py_opt (admin_email self)) (py_opt (admin_password self)) = None")
           simp_all
    qed
  qed
  from assms(1) have f1: "flatten w m (randrange w (boundary_draws st1)) = Inr b1"
    by (rule flat)
  from assms(2) have f2: "flatten w m (randrange w (boundary_draws st2)) = Inr b2"
    by (rule flat)
  from f1 f2 have same:
    "randrange w (boundary_draws st1) = randrange w (boundary_draws st2) \<longrightarrow> b1 = b2"
    by auto
  from send_email_compose_Inr [OF Inr] obtain hx where hx: "html_content = PStr hx"
    "headers m = [(''Content-Type'', PStr (ustr ''multipart/alternative'')),
                          (''MIME-Version'', PStr (ustr ''1.0'')),
                          (''Subject'', subject),
                          (''From'', py_opt (admin_email self)),
                          (''To'', to_email)]"
    "\<not> truthy text_content \<longrightarrow> parts m = [MIMEText hx ''html'' (charset_of hx)]"
    "truthy text_content \<longrightarrow>
                (\<exists>tx. text_content = PStr tx
                   \<and> parts m = [MIMEText tx ''plain'' (charset_of tx),
                                MIMEText hx ''html'' (charset_of hx)])"
    by blast
  show ?thesis
    apply (rule exI [of _ m])
    apply (rule exI [of _ hx])
    apply (intro conjI)
    apply (rule Inr)
    apply (rule hx(1))
    apply (rule hx(2))
    apply (rule hx(3))
    apply (rule hx(4))
    apply (rule f1)
    apply (rule f2)
    apply (rule same)
    done
qed

lemma replicate_numeral: "replicate (numeral k) x = x # replicate (pred_numeral k) x"
  by (simp add: numeral_eq_Suc)

lemma demo_boundary_0: "demo_boundary 0 = ''===============0000000000000000000==''"
  by (simp add: demo_boundary_def replicate_numeral)

lemma demo_boundary_1: "demo_boundary (Suc 0) = ''===============0000000000000000001==''"
  by (simp add: demo_boundary_def replicate_numeral)

lemma demo_bytes_0:
  "demo_bytes
     \<lparr>headers = [(''Content-Type'', PStr (ustr ''multipart/alternative'')),
                     (''MIME-Version'', PStr (ustr ''1.0'')),
                     (''Subject'', PStr (ustr ''Hi'')),
                     (''From'', PStr (ustr ''admin@example.com'')),
                     (''To'', PStr (ustr ''a@b.com''))],
          parts = [MIMEText (ustr ''Hello'') ''plain'' ''us-ascii'',
                   MIMEText (ustr ''<p>x</p>'') ''html'' ''us-ascii'']\<rparr>
     0 =
     ''Content-Type: multipart/alternative;'' @ crlf
     @ '' boundary='' @ [CHR 0x22] @ ''===============0000000000000000000=='' @ [CHR 0x22] @ crlf
     @ ''MIME-Version: 1.0'' @ crlf
     @ ''Subject: Hi'' @ crlf
     @ ''From: admin@example.com'' @ crlf
     @ ''To: a@b.com'' @ crlf
     @ crlf
     @ ''--'' @ ''===============0000000000000000000=='' @ crlf
     @ ''Content-Type: text/plain; charset='' @ [CHR 0x22] @ ''us-ascii'' @ [CHR 0x22] @ crlf
     @ ''MIME-Version: 1.0'' @ crlf
     @ ''Content-Transfer-Encoding: 7bit'' @ crlf
     @ crlf
     @ ''Hello'' @ crlf
     @ ''--'' @ ''===============0000000000000000000=='' @ crlf
     @ ''Content-Type: text/html; charset='' @ [CHR 0x22] @ ''us-ascii'' @ [CHR 0x22] @ crlf
     @ ''MIME-Version: 1.0'' @ crlf
     @ ''Content-Transfer-Encoding: 7bit'' @ crlf
     @ crlf
     @ ''<p>x</p>'' @ crlf
     @ ''--'' @ ''===============0000000000000000000=='' @ ''--'' @ crlf"
  by (simp add: demo_bytes_def demo_boundary_0 demo_boundary_1 demo_header_line_def demo_part_def
        crlf_def)

lemma demo_bytes_1:
  "demo_bytes
     \<lparr>headers = [(''Content-Type'', PStr (ustr ''multipart/alternative'')),
                     (''MIME-Version'', PStr (ustr ''1.0'')),
                     (''Subject'', PStr (ustr ''Hi'')),
                     (''From'', PStr (ustr ''admin@example.com'')),
                     (''To'', PStr (ustr ''a@b.com''))],
          parts = [MIMEText (ustr ''Hello'') ''plain'' ''us-ascii'',
                   MIMEText (ustr ''<p>x</p>'') ''html'' ''us-ascii'']\<rparr>
     (Suc 0) =
     ''Content-Type: multipart/alternative;'' @ crlf
     @ '' boundary='' @ [CHR 0x22] @ ''===============0000000000000000001=='' @ [CHR 0x22] @ crlf
     @ ''MIME-Version: 1.0'' @ crlf
     @ ''Subject: Hi'' @ crlf
     @ ''From: admin@example.com'' @ crlf
     @ ''To: a@b.com'' @ crlf
     @ crlf
     @ ''--'' @ ''===============0000000000000000001=='' @ crlf
     @ ''Content-Type: text/plain; charset='' @ [CHR 0x22] @ ''us-ascii'' @ [CHR 0x22] @ crlf
     @ ''MIME-Version: 1.0'' @ crlf
     @ ''Content-Transfer-Encoding: 7bit'' @ crlf
     @ crlf
     @ ''Hello'' @ crlf
     @ ''--'' @ ''===============0000000000000000001=='' @ crlf
     @ ''Content-Type: text/html; charset='' @ [CHR 0x22] @ ''us-ascii'' @ [CHR 0x22] @ crlf
     @ ''MIME-Version: 1.0'' @ crlf
     @ ''Content-Transfer-Encoding: 7bit'' @ crlf
     @ crlf
     @ ''<p>x</p>'' @ crlf
     @ ''--'' @ ''===============0000000000000000001=='' @ ''--'' @ crlf"
  by (simp add: demo_bytes_def demo_boundary_0 demo_boundary_1 demo_header_line_def demo_part_def
        crlf_def)

lemma demo_first_send:
  "snd (send_email demo_world demo_service (PStr (ustr ''a@b.com'')) (PStr (ustr ''Hi''))
          (PStr (ustr ''<p>x</p>'')) (PStr (ustr ''Hello''))
          demo_state) =
     \<lparr>smtp_log = [SMTP_SSL (ustr ''smtp.gmail.com'') 465,
                  Login (PStr (ustr ''admin@example.com'')) (PStr (ustr ''app-password'')),
                  SendMessage
                    \<lparr>headers = [(''Content-Type'', PStr (ustr ''multipart/alternative'')),
                    (''MIME-Version'', PStr (ustr ''1.0'')),
                    (''Subject'', PStr (ustr ''Hi'')),
                    (''From'', PStr (ustr ''admin@example.com'')),
                    (''To'', PStr (ustr ''a@b.com''))],
         parts = [MIMEText (ustr ''Hello'') ''plain'' ''us-ascii'',
                  MIMEText (ustr ''<p>x</p>'') ''html'' ''us-ascii'']\<rparr>,
                  Exit],
      wire = [demo_bytes
                \<lparr>headers = [(''Content-Type'', PStr (ustr ''multipart/alternative'')),
                    (''MIME-Version'', PStr (ustr ''1.0'')),
                    (''Subject'', PStr (ustr ''Hi'')),
                    (''From'', PStr (ustr ''admin@example.com'')),
                    (''To'', PStr (ustr ''a@b.com''))],
         parts = [MIMEText (ustr ''Hello'') ''plain'' ''us-ascii'',
                  MIMEText (ustr ''<p>x</p>'') ''html'' ''us-ascii'']\<rparr>
                0],
      stdout = [ustr ''Email sent successfully to a@b.com''],
      rand_pos = 0,
      boundary_draws = Suc 0\<rparr>"
  by (simp add: send_email_def send_email_transmit_def send_message_def io_defs Let_def
        demo_compose_text demo_world_sel demo_service_sel demo_state_def demo_flatten_def
        sent_line_def py_opt_def)

lemma demo_second_send:
  "wire (snd (send_email demo_world demo_service (PStr (ustr ''a@b.com'')) (PStr (ustr ''Hi''))
          (PStr (ustr ''<p>x</p>'')) (PStr (ustr ''Hello''))
          (snd (send_email demo_world demo_service (PStr (ustr ''a@b.com'')) (PStr (ustr ''Hi''))
          (PStr (ustr ''<p>x</p>'')) (PStr (ustr ''Hello''))
          demo_state)))) =
     [demo_bytes
        \<lparr>headers = [(''Content-Type'', PStr (ustr ''multipart/alternative'')),
                    (''MIME-Version'', PStr (ustr ''1.0'')),
                    (''Subject'', PStr (ustr ''Hi'')),
                    (''From'', PStr (ustr ''admin@example.com'')),
                    (''To'', PStr (ustr ''a@b.com''))],
         parts = [MIMEText (ustr ''Hello'') ''plain'' ''us-ascii'',
                  MIMEText (ustr ''<p>x</p>'') ''html'' ''us-ascii'']\<rparr>
        0,
      demo_bytes
        \<lparr>headers = [(''Content-Type'', PStr (ustr ''multipart/alternative'')),
                    (''MIME-Version'', PStr (ustr ''1.0'')),
                    (''Subject'', PStr (ustr ''Hi'')),
                    (''From'', PStr (ustr ''admin@example.com'')),
                    (''To'', PStr (ustr ''a@b.com''))],
         parts = [MIMEText (ustr ''Hello'') ''plain'' ''us-ascii'',
                  MIMEText (ustr ''<p>x</p>'') ''html'' ''us-ascii'']\<rparr>
        (Suc 0)]"
  unfolding demo_first_send
  by (simp add: send_email_def send_email_transmit_def send_message_def io_defs Let_def
        demo_compose_text demo_world_sel demo_service_sel demo_flatten_def
        sent_line_def py_opt_def)

text \<open>
  The same call made twice in a row: the library draws 0 and then 1 for the boundary, and
  the two flattened messages differ.
\<close>

theorem send_email_boundary_counterexample:
  "wire (snd (send_email demo_world demo_service (PStr (ustr ''a@b.com'')) (PStr (ustr ''Hi''))
          (PStr (ustr ''<p>x</p>'')) (PStr (ustr ''Hello''))
          (snd (send_email demo_world demo_service (PStr (ustr ''a@b.com'')) (PStr (ustr ''Hi''))
          (PStr (ustr ''<p>x</p>'')) (PStr (ustr ''Hello''))
          demo_state)))) =
     [''Content-Type: multipart/alternative;'' @ crlf
       @ '' boundary='' @ [CHR 0x22] @ ''===============0000000000000000000=='' @ [CHR 0x22] @ crlf
       @ ''MIME-Version: 1.0'' @ crlf
       @ ''Subject: Hi'' @ crlf
       @ ''From: admin@example.com'' @ crlf
       @ ''To: a@b.com'' @ crlf
       @ crlf
       @ ''--'' @ ''===============0000000000000000000=='' @ crlf
       @ ''Content-Type: text/plain; charset='' @ [CHR 0x22] @ ''us-ascii'' @ [CHR 0x22] @ crlf
       @ ''MIME-Version: 1.0'' @ crlf
       @ ''Content-Transfer-Encoding: 7bit'' @ crlf
       @ crlf
       @ ''Hello'' @ crlf
       @ ''--'' @ ''===============0000000000000000000=='' @ crlf
       @ ''Content-Type: text/html; charset='' @ [CHR 0x22] @ ''us-ascii'' @ [CHR 0x22] @ crlf
       @ ''MIME-Version: 1.0'' @ crlf
       @ ''Content-Transfer-Encoding: 7bit'' @ crlf
       @ crlf
       @ ''<p>x</p>'' @ crlf
       @ ''--'' @ ''===============0000000000000000000=='' @ ''--'' @ crlf,
      ''Content-Type: multipart/alternative;'' @ crlf
       @ '' boundary='' @ [CHR 0x22] @ ''===============0000000000000000001=='' @ [CHR 0x22] @ crlf
       @ ''MIME-Version: 1.0'' @ crlf
       @ ''Subject: Hi'' @ crlf
       @ ''From: admin@example.com'' @ crlf
       @ ''To: a@b.com'' @ crlf
       @ crlf
       @ ''--'' @ ''===============0000000000000000001=='' @ crlf
       @ ''Content-Type: text/plain; charset='' @ [CHR 0x22] @ ''us-ascii'' @ [CHR 0x22] @ crlf
       @ ''MIME-Version: 1.0'' @ crlf
       @ ''Content-Transfer-Encoding: 7bit'' @ crlf
       @ crlf
       @ ''Hello'' @ crlf
       @ ''--'' @ ''===============0000000000000000001=='' @ crlf
       @ ''Content-Type: text/html; charset='' @ [CHR 0x22] @ ''us-ascii'' @ [CHR 0x22] @ crlf
       @ ''MIME-Version: 1.0'' @ crlf
       @ ''Content-Transfer-Encoding: 7bit'' @ crlf
       @ crlf
       @ ''<p>x</p>'' @ crlf
       @ ''--'' @ ''===============0000000000000000001=='' @ ''--'' @ crlf]
   \<and> ''Content-Type: multipart/alternative;'' @ crlf
       @ '' boundary='' @ [CHR 0x22] @ ''===============0000000000000000000=='' @ [CHR 0x22] @ crlf
       @ ''MIME-Version: 1.0'' @ crlf
       @ ''Subject: Hi'' @ crlf
       @ ''From: admin@example.com'' @ crlf
       @ ''To: a@b.com'' @ crlf
       @ crlf
       @ ''--'' @ ''===============0000000000000000000=='' @ crlf
       @ ''Content-Type: text/plain; charset='' @ [CHR 0x22] @ ''us-ascii'' @ [CHR 0x22] @ crlf
       @ ''MIME-Version: 1.0'' @ crlf
       @ ''Content-Transfer-Encoding: 7bit'' @ crlf
       @ crlf
       @ ''Hello'' @ crlf
       @ ''--'' @ ''===============0000000000000000000=='' @ crlf
       @ ''Content-Type: text/html; charset='' @ [CHR 0x22] @ ''us-ascii'' @ [CHR 0x22] @ crlf
       @ ''MIME-Version: 1.0'' @ crlf
       @ ''Content-Transfer-Encoding: 7bit'' @ crlf
       @ crlf
       @ ''<p>x</p>'' @ crlf
       @ ''--'' @ ''===============0000000000000000000=='' @ ''--'' @ crlf
     \<noteq> ''Content-Type: multipart/alternative;'' @ crlf
       @ '' boundary='' @ [CHR 0x22] @ ''===============0000000000000000001=='' @ [CHR 0x22] @ crlf
       @ ''MIME-Version: 1.0'' @ crlf
       @ ''Subject: Hi'' @ crlf
       @ ''From: admin@example.com'' @ crlf
       @ ''To: a@b.com'' @ crlf
       @ crlf
       @ ''--'' @ ''===============0000000000000000001=='' @ crlf
       @ ''Content-Type: text/plain; charset='' @ [CHR 0x22] @ ''us-ascii'' @ [CHR 0x22] @ crlf
       @ ''MIME-Version: 1.0'' @ crlf
       @ ''Content-Transfer-Encoding: 7bit'' @ crlf
       @ crlf
       @ ''Hello'' @ crlf
       @ ''--'' @ ''===============0000000000000000001=='' @ crlf
       @ ''Content-Type: text/html; charset='' @ [CHR 0x22] @ ''us-ascii'' @ [CHR 0x22] @ crlf
       @ ''MIME-Version: 1.0'' @ crlf
       @ ''Content-Transfer-Encoding: 7bit'' @ crlf
       @ crlf
       @ ''<p>x</p>'' @ crlf
       @ ''--'' @ ''===============0000000000000000001=='' @ ''--'' @ crlf"
proof (rule conjI)
  show "wire (snd (send_email demo_world demo_service (PStr (ustr ''a@b.com'')) (PStr (ustr ''Hi''))
          (PStr (ustr ''<p>x</p>'')) (PStr (ustr ''Hello''))
          (snd (send_email demo_world demo_service (PStr (ustr ''a@b.com'')) (PStr (ustr ''Hi''))
          (PStr (ustr ''<p>x</p>'')) (PStr (ustr ''Hello''))
          demo_state)))) =
     [''Content-Type: multipart/alternative;'' @ crlf
       @ '' boundary='' @ [CHR 0x22] @ ''===============0000000000000000000=='' @ [CHR 0x22] @ crlf
       @ ''MIME-Version: 1.0'' @ crlf
       @ ''Subject: Hi'' @ crlf
       @ ''From: admin@example.com'' @ crlf
       @ ''To: a@b.com'' @ crlf
       @ crlf
       @ ''--'' @ ''===============0000000000000000000=='' @ crlf
       @ ''Content-Type: text/plain; charset='' @ [CHR 0x22] @ ''us-ascii'' @ [CHR 0x22] @ crlf
       @ ''MIME-Version: 1.0'' @ crlf
       @ ''Content-Transfer-Encoding: 7bit'' @ crlf
       @ crlf
       @ ''Hello'' @ crlf
       @ ''--'' @ ''===============0000000000000000000=='' @ crlf
       @ ''Content-Type: text/html; charset='' @ [CHR 0x22] @ ''us-ascii'' @ [CHR 0x22] @ crlf
       @ ''MIME-Version: 1.0'' @ crlf
       @ ''Content-Transfer-Encoding: 7bit'' @ crlf
       @ crlf
       @ ''<p>x</p>'' @ crlf
       @ ''--'' @ ''===============0000000000000000000=='' @ ''--'' @ crlf,
      ''Content-Type: multipart/alternative;'' @ crlf
       @ '' boundary='' @ [CHR 0x22] @ ''===============0000000000000000001=='' @ [CHR 0x22] @ crlf
       @ ''MIME-Version: 1.0'' @ crlf
       @ ''Subject: Hi'' @ crlf
       @ ''From: admin@example.com'' @ crlf
       @ ''To: a@b.com'' @ crlf
       @ crlf
       @ ''--'' @ ''===============0000000000000000001=='' @ crlf
       @ ''Content-Type: text/plain; charset='' @ [CHR 0x22] @ ''us-ascii'' @ [CHR 0x22] @ crlf
       @ ''MIME-Version: 1.0'' @ crlf
       @ ''Content-Transfer-Encoding: 7bit'' @ crlf
       @ crlf
       @ ''Hello'' @ crlf
       @ ''--'' @ ''===============0000000000000000001=='' @ crlf
       @ ''Content-Type: text/html; charset='' @ [CHR 0x22] @ ''us-ascii'' @ [CHR 0x22] @ crlf
       @ ''MIME-Version: 1.0'' @ crlf
       @ ''Content-Transfer-Encoding: 7bit'' @ crlf
       @ crlf
       @ ''<p>x</p>'' @ crlf
       @ ''--'' @ ''===============0000000000000000001=='' @ ''--'' @ crlf]"
    by (simp only: demo_second_send demo_bytes_0 demo_bytes_1)
  show "''Content-Type: multipart/alternative;'' @ crlf
       @ '' boundary='' @ [CHR 0x22] @ ''===============0000000000000000000=='' @ [CHR 0x22] @ crlf
       @ ''MIME-Version: 1.0'' @ crlf
       @ ''Subject: Hi'' @ crlf
       @ ''From: admin@example.com'' @ crlf
       @ ''To: a@b.com'' @ crlf
       @ crlf
       @ ''--'' @ ''===============0000000000000000000=='' @ crlf
       @ ''Content-Type: text/plain; charset='' @ [CHR 0x22] @ ''us-ascii'' @ [CHR 0x22] @ crlf
       @ ''MIME-Version: 1.0'' @ crlf
       @ ''Content-Transfer-Encoding: 7bit'' @ crlf
       @ crlf
       @ ''Hello'' @ crlf
       @ ''--'' @ ''===============0000000000000000000=='' @ crlf
       @ ''Content-Type: text/html; charset='' @ [CHR 0x22] @ ''us-ascii'' @ [CHR 0x22] @ crlf
       @ ''MIME-Version: 1.0'' @ crlf
       @ ''Content-Transfer-Encoding: 7bit'' @ crlf
       @ crlf
       @ ''<p>x</p>'' @ crlf
       @ ''--'' @ ''===============0000000000000000000=='' @ ''--'' @ crlf
     \<noteq> ''Content-Type: multipart/alternative;'' @ crlf
       @ '' boundary='' @ [CHR 0x22] @ ''===============0000000000000000001=='' @ [CHR 0x22] @ crlf
       @ ''MIME-Version: 1.0'' @ crlf
       @ ''Subject: Hi'' @ crlf
       @ ''From: admin@example.com'' @ crlf
       @ ''To: a@b.com'' @ crlf
       @ crlf
       @ ''--'' @ ''===============0000000000000000001=='' @ crlf
       @ ''Content-Type: text/plain; charset='' @ [CHR 0x22] @ ''us-ascii'' @ [CHR 0x22] @ crlf
       @ ''MIME-Version: 1.0'' @ crlf
       @ ''Content-Transfer-Encoding: 7bit'' @ crlf
       @ crlf
       @ ''Hello'' @ crlf
       @ ''--'' @ ''===============0000000000000000001=='' @ crlf
       @ ''Content-Type: text/html; charset='' @ [CHR 0x22] @ ''us-ascii'' @ [CHR 0x22] @ crlf
       @ ''MIME-Version: 1.0'' @ crlf
       @ ''Content-Transfer-Encoding: 7bit'' @ crlf
       @ crlf
       @ ''<p>x</p>'' @ crlf
       @ ''--'' @ ''===============0000000000000000001=='' @ ''--'' @ crlf"
    by (simp add: crlf_def)
qed

theorem send_email_same_message_witness:
  "demo_bytes
     \<lparr>headers = [(''Content-Type'', PStr (ustr ''multipart/alternative'')),
                    (''MIME-Version'', PStr (ustr ''1.0'')),
                    (''Subject'', PStr (ustr ''Hi'')),
                    (''From'', PStr (ustr ''admin@example.com'')),
                    (''To'', PStr (ustr ''a@b.com''))],
         parts = [MIMEText (ustr ''Hello'') ''plain'' ''us-ascii'',
                  MIMEText (ustr ''<p>x</p>'') ''html'' ''us-ascii'']\<rparr>
     0
     \<in> set (new_wire demo_state (snd (send_email demo_world demo_service (PStr (ustr ''a@b.com'')) (PStr (ustr ''Hi''))
          (PStr (ustr ''<p>x</p>'')) (PStr (ustr ''Hello''))
          demo_state)))
   \<and> demo_bytes
       \<lparr>headers = [(''Content-Type'', PStr (ustr ''multipart/alternative'')),
                    (''MIME-Version'', PStr (ustr ''1.0'')),
                    (''Subject'', PStr (ustr ''Hi'')),
                    (''From'', PStr (ustr ''admin@example.com'')),
                    (''To'', PStr (ustr ''a@b.com''))],
         parts = [MIMEText (ustr ''Hello'') ''plain'' ''us-ascii'',
                  MIMEText (ustr ''<p>x</p>'') ''html'' ''us-ascii'']\<rparr>
       (Suc 0)
     \<in> set (new_wire (snd (send_email demo_world demo_service (PStr (ustr ''a@b.com'')) (PStr (ustr ''Hi''))
          (PStr (ustr ''<p>x</p>'')) (PStr (ustr ''Hello''))
          demo_state))
          (snd (send_email demo_world demo_service (PStr (ustr ''a@b.com'')) (PStr (ustr ''Hi''))
             (PStr (ustr ''<p>x</p>'')) (PStr (ustr ''Hello''))
             (snd (send_email demo_world demo_service (PStr (ustr ''a@b.com'')) (PStr (ustr ''Hi''))
          (PStr (ustr ''<p>x</p>'')) (PStr (ustr ''Hello''))
          demo_state)))))
   \<and> send_email_compose demo_service (PStr (ustr ''a@b.com'')) (PStr (ustr ''Hi''))
       (PStr (ustr ''<p>x</p>'')) (PStr (ustr ''Hello'')) =
       Inr \<lparr>headers = [(''Content-Type'', PStr (ustr ''multipart/alternative'')),
                    (''MIME-Version'', PStr (ustr ''1.0'')),
                    (''Subject'', PStr (ustr ''Hi'')),
                    (''From'', PStr (ustr ''admin@example.com'')),
                    (''To'', PStr (ustr ''a@b.com''))],
         parts = [MIMEText (ustr ''Hello'') ''plain'' ''us-ascii'',
                  MIMEText (ustr ''<p>x</p>'') ''html'' ''us-ascii'']\<rparr>
   \<and> flatten demo_world
       \<lparr>headers = [(''Content-Type'', PStr (ustr ''multipart/alternative'')),
                    (''MIME-Version'', PStr (ustr ''1.0'')),
                    (''Subject'', PStr (ustr ''Hi'')),
                    (''From'', PStr (ustr ''admin@example.com'')),
                    (''To'', PStr (ustr ''a@b.com''))],
         parts = [MIMEText (ustr ''Hello'') ''plain'' ''us-ascii'',
                  MIMEText (ustr ''<p>x</p>'') ''html'' ''us-ascii'']\<rparr>
       (randrange demo_world (boundary_draws demo_state)) =
       Inr (demo_bytes
              \<lparr>headers = [(''Content-Type'', PStr (ustr ''multipart/alternative'')),
                    (''MIME-Version'', PStr (ustr ''1.0'')),
                    (''Subject'', PStr (ustr ''Hi'')),
                    (''From'', PStr (ustr ''admin@example.com'')),
                    (''To'', PStr (ustr ''a@b.com''))],
         parts = [MIMEText (ustr ''Hello'') ''plain'' ''us-ascii'',
                  MIMEText (ustr ''<p>x</p>'') ''html'' ''us-ascii'']\<rparr>
              0)
   \<and> flatten demo_world
       \<lparr>headers = [(''Content-Type'', PStr (ustr ''multipart/alternative'')),
                    (''MIME-Version'', PStr (ustr ''1.0'')),
                    (''Subject'', PStr (ustr ''Hi'')),
                    (''From'', PStr (ustr ''admin@example.com'')),
                    (''To'', PStr (ustr ''a@b.com''))],
         parts = [MIMEText (ustr ''Hello'') ''plain'' ''us-ascii'',
                  MIMEText (ustr ''<p>x</p>'') ''html'' ''us-ascii'']\<rparr>
       (randrange demo_world (boundary_draws (snd (send_email demo_world demo_service (PStr (ustr ''a@b.com'')) (PStr (ustr ''Hi''))
          (PStr (ustr ''<p>x</p>'')) (PStr (ustr ''Hello''))
          demo_state)))) =
       Inr (demo_bytes
              \<lparr>headers = [(''Content-Type'', PStr (ustr ''multipart/alternative'')),
                    (''MIME-Version'', PStr (ustr ''1.0'')),
                    (''Subject'', PStr (ustr ''Hi'')),
                    (''From'', PStr (ustr ''admin@example.com'')),
                    (''To'', PStr (ustr ''a@b.com''))],
         parts = [MIMEText (ustr ''Hello'') ''plain'' ''us-ascii'',
                  MIMEText (ustr ''<p>x</p>'') ''html'' ''us-ascii'']\<rparr>
              (Suc 0))"
proof -
  let ?args = "\<lambda>st. send_email demo_world demo_service (PStr (ustr ''a@b.com''))
                        (PStr (ustr ''Hi'')) (PStr (ustr ''<p>x</p>'')) (PStr (ustr ''Hello'')) st"
  let ?M = "\<lparr>headers = [(''Content-Type'', PStr (ustr ''multipart/alternative'')),
                    (''MIME-Version'', PStr (ustr ''1.0'')),
                    (''Subject'', PStr (ustr ''Hi'')),
                    (''From'', PStr (ustr ''admin@example.com'')),
                    (''To'', PStr (ustr ''a@b.com''))],
         parts = [MIMEText (ustr ''Hello'') ''plain'' ''us-ascii'',
                  MIMEText (ustr ''<p>x</p>'') ''html'' ''us-ascii'']\<rparr>"
  have h1: "demo_bytes ?M 0 \<in> set (new_wire demo_state (snd (?args demo_state)))"
    by (simp add: demo_first_send new_wire_def demo_state_sel)
  have h2: "demo_bytes ?M (Suc 0)
            \<in> set (new_wire (snd (?args demo_state)) (snd (?args (snd (?args demo_state)))))"
    by (simp add: new_wire_def demo_second_send) (simp add: demo_first_send)
  from send_email_same_message [OF h1 h2] obtain m where m:
    "send_email_compose demo_service (PStr (ustr ''a@b.com'')) (PStr (ustr ''Hi''))
       (PStr (ustr ''<p>x</p>'')) (PStr (ustr ''Hello'')) = Inr m"
    "flatten demo_world m (randrange demo_world (boundary_draws demo_state))
       = Inr (demo_bytes ?M 0)"
    "flatten demo_world m (randrange demo_world (boundary_draws (snd (?args demo_state))))
       = Inr (demo_bytes ?M (Suc 0))"
    by blast
  from m(1) have "m = ?M" by (simp add: demo_compose_text)
  with m h1 h2 show ?thesis by simp
qed

section \<open>The sender address\<close>





lemma generate_reset_token_log: "smtp_log (snd (generate_reset_token w st)) = smtp_log st"
  by (simp add: generate_reset_token_def token_urlsafe_def token_bytes_def)





section \<open>Validation of required fields\<close>

text \<open>
  Whenever the \<open>and\<close> chain of the custom email endpoint evaluates to \<open>None\<close>, which
  it does when a field is missing and the fields before it are truthy, the endpoint answers
  500 and the state is unchanged.
\<close>

lemma send_custom_email_none_chain:
  assumes "py_and (py_and (case map_of kvs (ustr ''to_email'') of None \<Rightarrow> PNone | Some v \<Rightarrow> v)
                          (case map_of kvs (ustr ''subject'') of None \<Rightarrow> PNone | Some v \<Rightarrow> v))
                  (case map_of kvs (ustr ''html_content'') of None \<Rightarrow> PNone | Some v \<Rightarrow> v)
           = PNone"
  shows "send_custom_email w email_service (Inr (PDict kvs)) st
         = (Inr (error_body (quoted ''NoneType'' @ '' object is not iterable''), 500), st)"
  using assms
  by (simp add: send_custom_email_def io_defs dict_get_def respond_500_def)

text \<open>
  C2. A body without \<open>to_email\<close>: the \<open>and\<close> chain evaluates to \<open>None\<close>, \<open>all(None)\<close>
  raises \<open>TypeError\<close>, and the endpoint answers 500 with that message. The state is
  unchanged, so the email service is not called.
\<close>

theorem send_custom_email_missing_field:
  "send_custom_email w email_service
     (Inr (PDict [(ustr ''subject'', PStr (ustr ''Hi'')),
                  (ustr ''html_content'', PStr (ustr ''<p>x</p>''))])) st
   = (Inr (error_body (quoted ''NoneType'' @ '' object is not iterable''), 500), st)"
  by (simp add: send_custom_email_def io_defs dict_get_def py_and_def respond_500_def)

text \<open>
  C9. In the password reset and reset success endpoints, a body whose \<open>email\<close> or
  \<open>username\<close> is falsy (missing, null, the empty string) is answered with 400 and the
  message that both are required; the state is unchanged, so the email service is never called.
\<close>

theorem empty_field_is_missing:
  assumes "dict_get data ''email'' = Inr email" and "dict_get data ''username'' = Inr username"
    and "\<not> truthy email \<or> \<not> truthy username"
  shows "send_password_reset w cfg email_service (Inr data) st =
           (Inr (error_body ''email and username are required'', 400), st)
         \<and> send_reset_success w email_service (Inr data) st =
           (Inr (error_body ''email and username are required'', 400), st)"
proof -
  from assms(1) obtain kvs where data: "data = PDict kvs"
    by (cases data) (simp_all add: dict_get_def)
  then obtain user_name where "dict_get data ''user_name'' = Inr user_name"
    by (simp add: dict_get_def)
  with assms show ?thesis
    by (simp add: send_password_reset_def send_reset_success_def io_defs)
qed

theorem empty_field_is_missing_witness:
  "dict_get (PDict [(ustr ''email'', PStr (ustr ''a@b.com'')), (ustr ''username'', PStr [])])
     ''email'' = Inr (PStr (ustr ''a@b.com''))
   \<and> dict_get (PDict [(ustr ''email'', PStr (ustr ''a@b.com'')), (ustr ''username'', PStr [])])
       ''username'' = Inr (PStr [])
   \<and> \<not> truthy (PStr [])
   \<and> send_password_reset demo_world demo_config demo_service
        (Inr (PDict [(ustr ''email'', PStr (ustr ''a@b.com'')), (ustr ''username'', PStr [])]))
        demo_state =
           (Inr (error_body ''email and username are required'', 400), demo_state)
   \<and> send_reset_success demo_world demo_service
        (Inr (PDict [(ustr ''email'', PStr (ustr ''a@b.com'')), (ustr ''username'', PStr [])]))
        demo_state =
           (Inr (error_body ''email and username are required'', 400), demo_state)"
proof -
  have h1: "dict_get (PDict [(ustr ''email'', PStr (ustr ''a@b.com'')),
                             (ustr ''username'', PStr [])]) ''email''
            = Inr (PStr (ustr ''a@b.com''))" by (simp add: dict_get_def)
  have h2: "dict_get (PDict [(ustr ''email'', PStr (ustr ''a@b.com'')),
                             (ustr ''username'', PStr [])]) ''username''
            = Inr (PStr [])" by (simp add: dict_get_def)
  have h3: "\<not> truthy (PStr (ustr ''a@b.com'')) \<or> \<not> truthy (PStr [])" by simp
  from empty_field_is_missing [OF h1 h2 h3, of demo_world demo_config demo_service demo_state]
    h1 h2 show ?thesis by simp
qed

section \<open>The password reset email\<close>

lemma sublist_reset_text_name:
  "sublist (py_str w display_name) (reset_text w display_name reset_url)"
  unfolding reset_text_def sublist_def
  by (rule exI [of _ "nl @ indent @ ustr ''Hello ''"], rule exI) (simp only: append_assoc)

lemma sublist_reset_text_url:
  "sublist (py_str w reset_url) (reset_text w display_name reset_url)"
  unfolding reset_text_def sublist_def
  by (rule exI [of _ "nl @ indent @ ustr ''Hello '' @ py_str w display_name @ ustr '','' @ nl
     @ indent @ nl
     @ indent
     @ ustr ''You requested a password reset for your Computer Networks program account.'' @ nl
     @ indent @ nl
     @ indent @ ustr ''Please visit this link to reset your password:'' @ nl
     @ indent"], rule exI) (simp only: append_assoc)

lemma nl_encodable [simp]: "utf8_encodable h nl"
  by (cases h) (simp_all add: nl_def utf8_encodable_def is_surrogate_def)

lemma indent_encodable [simp]: "utf8_encodable h indent"
  by (simp add: indent_def)

lemma reset_text_encodable:
  "utf8_encodable h (reset_text w display_name reset_url)
   = (utf8_encodable h (py_str w display_name) \<and> utf8_encodable h (py_str w reset_url))"
  by (auto simp: reset_text_def simp del: ustr_join)

lemma reset_text_nonempty: "reset_text w display_name reset_url \<noteq> []"
  by (simp add: reset_text_def nl_def)

text \<open>
  C7 (as amended). \<open>send_password_reset_email\<close> renders the template with the context
  \<open>user_name\<close> = (\<open>user_name\<close> if it is provided and truthy, that is non-empty, else
  \<open>username\<close>), \<open>username\<close>, \<open>reset_url\<close> and \<open>expiration_minutes\<close> = 60; the subject
  is the fixed string "Password Reset - Computer Networks Program"; the plain-text body
  contains the greeting name and the literal \<open>reset_url\<close>; and the call delegates to
  \<open>send_email\<close> with that subject, the rendered HTML and the plain-text body.
\<close>

theorem send_password_reset_email_spec:
  assumes "jinja_env self ''password_reset.html'' = Inr template"
  shows "send_password_reset_email w self to_email username reset_url user_name st =
           (case template [(''user_name'', if truthy user_name then user_name else username),
                           (''username'', username),
                           (''reset_url'', reset_url),
                           (''expiration_minutes'', PInt 60)] of
              Inl e \<Rightarrow> (Inl e, st)
            | Inr html_content \<Rightarrow>
                send_email w self to_email
                  (PStr (ustr ''Password Reset - Computer Networks Program''))
                  (PStr html_content)
                  (PStr (reset_text w (if truthy user_name then user_name else username)
                           reset_url)) st)
         \<and> sublist (py_str w (if truthy user_name then user_name else username))
             (reset_text w (if truthy user_name then user_name else username) reset_url)
         \<and> sublist (py_str w reset_url)
             (reset_text w (if truthy user_name then user_name else username) reset_url)"
proof (intro conjI)
  show "send_password_reset_email w self to_email username reset_url user_name st =
           (case template [(''user_name'', if truthy user_name then user_name else username),
                           (''username'', username),
                           (''reset_url'', reset_url),
                           (''expiration_minutes'', PInt 60)] of
              Inl e \<Rightarrow> (Inl e, st)
            | Inr html_content \<Rightarrow>
                send_email w self to_email
                  (PStr (ustr ''Password Reset - Computer Networks Program''))
                  (PStr html_content)
                  (PStr (reset_text w (if truthy user_name then user_name else username)
                           reset_url)) st)"
    using assms
    by (simp add: send_password_reset_email_def reset_context_def reset_subject_def py_or_def
          bind_def lift_def split: sum.splits)
qed (rule sublist_reset_text_name sublist_reset_text_url)+

theorem send_password_reset_email_spec_witness:
  "jinja_env demo_service ''password_reset.html'' = Inr demo_render
   \<and> send_password_reset_email demo_world demo_service (PStr (ustr ''a@b.com''))
        (PStr (ustr ''jdoe'')) (PStr (ustr ''https://x/reset?token=T&username=jdoe'')) PNone demo_state =
           (case demo_render [(''user_name'', if truthy PNone then PNone else PStr (ustr ''jdoe'')),
                              (''username'', PStr (ustr ''jdoe'')),
                              (''reset_url'', PStr (ustr ''https://x/reset?token=T&username=jdoe'')),
                              (''expiration_minutes'', PInt 60)] of
              Inl e \<Rightarrow> (Inl e, demo_state)
            | Inr html_content \<Rightarrow>
                send_email demo_world demo_service (PStr (ustr ''a@b.com''))
                  (PStr (ustr ''Password Reset - Computer Networks Program''))
                  (PStr html_content)
                  (PStr (reset_text demo_world
                           (if truthy PNone then PNone else PStr (ustr ''jdoe''))
                           (PStr (ustr ''https://x/reset?token=T&username=jdoe'')))) demo_state)
   \<and> sublist (ustr ''jdoe'')
        (reset_text demo_world (PStr (ustr ''jdoe'')) (PStr (ustr ''https://x/reset?token=T&username=jdoe'')))
   \<and> sublist (ustr ''https://x/reset?token=T&username=jdoe'')
        (reset_text demo_world (PStr (ustr ''jdoe'')) (PStr (ustr ''https://x/reset?token=T&username=jdoe'')))"
proof -
  have h: "jinja_env demo_service ''password_reset.html'' = Inr demo_render"
    by (simp add: demo_service_sel)
  from send_password_reset_email_spec [OF h, of demo_world "PStr (ustr ''a@b.com'')"
      "PStr (ustr ''jdoe'')" "PStr (ustr ''https://x/reset?token=T&username=jdoe'')" PNone demo_state] h
  show ?thesis by simp
qed

text \<open>
  An empty \<open>user_name\<close> is provided and is not \<open>None\<close>, yet the template receives the
  username as \<open>user_name\<close> and the message greets "jdoe".
\<close>

theorem empty_user_name_counterexample:
  "PStr [] \<noteq> PNone
   \<and> reset_context (PStr []) (PStr (ustr ''jdoe'')) (PStr (ustr ''https://x/reset?token=T&username=jdoe'')) =
       [(''user_name'', PStr (ustr ''jdoe'')),
        (''username'', PStr (ustr ''jdoe'')),
        (''reset_url'', PStr (ustr ''https://x/reset?token=T&username=jdoe'')),
        (''expiration_minutes'', PInt 60)]
   \<and> smtp_log (snd (send_password_reset_email demo_world demo_service (PStr (ustr ''a@b.com''))
                      (PStr (ustr ''jdoe'')) (PStr (ustr ''https://x/reset?token=T&username=jdoe'')) (PStr []) demo_state)) =
       [SMTP_SSL (ustr ''smtp.gmail.com'') 465,
        Login (PStr (ustr ''admin@example.com'')) (PStr (ustr ''app-password'')),
        SendMessage
          \<lparr>headers = [(''Content-Type'', PStr (ustr ''multipart/alternative'')),
                      (''MIME-Version'', PStr (ustr ''1.0'')),
                      (''Subject'', PStr (ustr ''Password Reset - Computer Networks Program'')),
                      (''From'', PStr (ustr ''admin@example.com'')),
                      (''To'', PStr (ustr ''a@b.com''))],
           parts = [MIMEText (reset_text demo_world (PStr (ustr ''jdoe'')) (PStr (ustr ''https://x/reset?token=T&username=jdoe'')))
                      ''plain''
                      (charset_of (reset_text demo_world (PStr (ustr ''jdoe'')) (PStr (ustr ''https://x/reset?token=T&username=jdoe'')))),
                    MIMEText
                      (ustr ''<p>jdoe</p><p>jdoe</p><p>https://x/reset?token=T&username=jdoe</p>'')
                      ''html'' ''us-ascii'']\<rparr>,
        Exit]"
proof (intro conjI)
  show "PStr [] \<noteq> PNone" by simp
  show "reset_context (PStr []) (PStr (ustr ''jdoe'')) (PStr (ustr ''https://x/reset?token=T&username=jdoe'')) =
       [(''user_name'', PStr (ustr ''jdoe'')),
        (''username'', PStr (ustr ''jdoe'')),
        (''reset_url'', PStr (ustr ''https://x/reset?token=T&username=jdoe'')),
        (''expiration_minutes'', PInt 60)]"
    by (simp add: reset_context_def py_or_def)
  have cs: "charset_of (ustr ''<p>jdoe</p><p>jdoe</p><p>https://x/reset?token=T&username=jdoe</p>'')
            = ''us-ascii''"
    by (simp add: charset_of_def ustr_def)
  show "smtp_log (snd (send_password_reset_email demo_world demo_service (PStr (ustr ''a@b.com''))
                      (PStr (ustr ''jdoe'')) (PStr (ustr ''https://x/reset?token=T&username=jdoe'')) (PStr []) demo_state)) =
       [SMTP_SSL (ustr ''smtp.gmail.com'') 465,
        Login (PStr (ustr ''admin@example.com'')) (PStr (ustr ''app-password'')),
        SendMessage
          \<lparr>headers = [(''Content-Type'', PStr (ustr ''multipart/alternative'')),
                      (''MIME-Version'', PStr (ustr ''1.0'')),
                      (''Subject'', PStr (ustr ''Password Reset - Computer Networks Program'')),
                      (''From'', PStr (ustr ''admin@example.com'')),
                      (''To'', PStr (ustr ''a@b.com''))],
           parts = [MIMEText (reset_text demo_world (PStr (ustr ''jdoe'')) (PStr (ustr ''https://x/reset?token=T&username=jdoe'')))
                      ''plain''
                      (charset_of (reset_text demo_world (PStr (ustr ''jdoe'')) (PStr (ustr ''https://x/reset?token=T&username=jdoe'')))),
                    MIMEText
                      (ustr ''<p>jdoe</p><p>jdoe</p><p>https://x/reset?token=T&username=jdoe</p>'')
                      ''html'' ''us-ascii'']\<rparr>,
        Exit]"
    by (simp add: send_password_reset_email_def reset_context_def reset_subject_def py_or_def
          send_email_def send_email_transmit_def send_message_def compose_defs io_defs
          demo_service_sel demo_world_sel demo_state_def demo_flatten_def
          demo_render_def sent_line_def reset_text_encodable reset_text_nonempty cs)
qed

section \<open>Rendering errors\<close>

lemma render_raises_reset:
  assumes "render_raises self ''password_reset.html''
             (reset_context user_name username reset_url) e"
  shows "send_password_reset_email w self to_email username reset_url user_name st = (Inl e, st)"
  using assms
  by (cases "jinja_env self ''password_reset.html''")
     (simp_all add: render_raises_def send_password_reset_email_def bind_def lift_def)

lemma render_raises_success:
  assumes "render_raises self ''password_reset_success.html'' [(''username'', username)] e"
  shows "send_password_reset_success_email w self to_email username st = (Inl e, st)"
  using assms
  by (cases "jinja_env self ''password_reset_success.html''")
     (simp_all add: render_raises_def send_password_reset_success_email_def bind_def lift_def)

text \<open>
  C4. When looking up or rendering the template raises, \<open>send_password_reset_email\<close> and
  \<open>send_password_reset_success_email\<close> raise the same exception and leave the state as it
  was; the endpoint that called them answers 500 with \<open>str(e)\<close> as the error, and no call
  on the mail server is made.
\<close>

theorem rendering_error_propagates:
  "(render_raises self ''password_reset.html'' (reset_context user_name username reset_url) e
      \<longrightarrow> send_password_reset_email w self to_email username reset_url user_name st
            = (Inl e, st))
   \<and> (render_raises self ''password_reset_success.html'' [(''username'', username)] e
      \<longrightarrow> send_password_reset_success_email w self to_email username st = (Inl e, st))
   \<and> (dict_get data ''email'' = Inr email \<and> truthy email
       \<and> dict_get data ''username'' = Inr username \<and> truthy username
       \<and> dict_get data ''user_name'' = Inr user_name
       \<and> render_raises self ''password_reset.html''
            (reset_context user_name username
               (PStr (PASSWORD_RESET_URL_BASE cfg @ ustr ''?token=''
                      @ fst (generate_reset_token w st)
                      @ ustr ''&username='' @ py_str w username))) e
      \<longrightarrow> fst (send_password_reset w cfg self (Inr data) st)
            = Inr (error_body (exn_str e), 500)
          \<and> smtp_log (snd (send_password_reset w cfg self (Inr data) st)) = smtp_log st)
   \<and> (dict_get data ''email'' = Inr email \<and> truthy email
       \<and> dict_get data ''username'' = Inr username \<and> truthy username
       \<and> render_raises self ''password_reset_success.html'' [(''username'', username)] e
      \<longrightarrow> fst (send_reset_success w self (Inr data) st) = Inr (error_body (exn_str e), 500)
          \<and> smtp_log (snd (send_reset_success w self (Inr data) st)) = smtp_log st)"
proof (intro conjI impI)
  assume "render_raises self ''password_reset.html''
            (reset_context user_name username reset_url) e"
  then show "send_password_reset_email w self to_email username reset_url user_name st
             = (Inl e, st)"
    by (rule render_raises_reset)
next
  assume "render_raises self ''password_reset_success.html'' [(''username'', username)] e"
  then show "send_password_reset_success_email w self to_email username st = (Inl e, st)"
    by (rule render_raises_success)
next
  assume a: "dict_get data ''email'' = Inr email \<and> truthy email
       \<and> dict_get data ''username'' = Inr username \<and> truthy username
       \<and> dict_get data ''user_name'' = Inr user_name
       \<and> render_raises self ''password_reset.html''
            (reset_context user_name username
               (PStr (PASSWORD_RESET_URL_BASE cfg @ ustr ''?token=''
                      @ fst (generate_reset_token w st)
                      @ ustr ''&username='' @ py_str w username))) e"
  obtain tok st1 where g: "generate_reset_token w st = (tok, st1)"
    by (cases "generate_reset_token w st")
  from generate_reset_token_log [of w st] g have log: "smtp_log st1 = smtp_log st" by simp
  from a g have "send_password_reset_email w self email username
                   (PStr (PASSWORD_RESET_URL_BASE cfg @ ustr ''?token='' @ tok
                          @ ustr ''&username='' @ py_str w username)) user_name st1 = (Inl e, st1)"
    by (simp add: render_raises_reset)
  with a g have r: "send_password_reset w cfg self (Inr data) st =
                   (Inr (error_body (exn_str e), 500),
                    st1\<lparr>stdout := stdout st1
                           @ [ustr ''Error in password reset endpoint: '' @ ustr (exn_str e)]\<rparr>)"
    by (simp add: send_password_reset_def io_defs respond_500_def)
  from r show "fst (send_password_reset w cfg self (Inr data) st)
               = Inr (error_body (exn_str e), 500)" by simp
  from r log show "smtp_log (snd (send_password_reset w cfg self (Inr data) st)) = smtp_log st"
    by simp
next
  assume a: "dict_get data ''email'' = Inr email \<and> truthy email
       \<and> dict_get data ''username'' = Inr username \<and> truthy username
       \<and> render_raises self ''password_reset_success.html'' [(''username'', username)] e"
  then have "send_password_reset_success_email w self email username st = (Inl e, st)"
    by (simp add: render_raises_success)
  with a have r: "send_reset_success w self (Inr data) st =
                   (Inr (error_body (exn_str e), 500),
                    st\<lparr>stdout := stdout st
                           @ [ustr ''Error in success email endpoint: '' @ ustr (exn_str e)]\<rparr>)"
    by (simp add: send_reset_success_def io_defs respond_500_def)
  from r show "fst (send_reset_success w self (Inr data) st)
               = Inr (error_body (exn_str e), 500)" by simp
  from r show "smtp_log (snd (send_reset_success w self (Inr data) st)) = smtp_log st"
    by simp
qed


theorem rendering_error_propagates_witness:
  "render_raises (EmailService_init demo_config no_template_world) ''password_reset.html''
     (reset_context PNone (PStr (ustr ''jdoe'')) (PStr (ustr ''https://x/reset?token=T&username=jdoe'')))
     (Exn ''TemplateNotFound'' ''password_reset.html'')
   \<and> send_password_reset_email no_template_world
        (EmailService_init demo_config no_template_world) (PStr (ustr ''a@b.com''))
        (PStr (ustr ''jdoe'')) (PStr (ustr ''https://x/reset?token=T&username=jdoe'')) PNone demo_state
       = (Inl (Exn ''TemplateNotFound'' ''password_reset.html''), demo_state)
   \<and> render_raises (EmailService_init demo_config no_template_world)
        ''password_reset_success.html'' [(''username'', PStr (ustr ''jdoe''))]
        (Exn ''TemplateNotFound'' ''password_reset_success.html'')
   \<and> send_password_reset_success_email no_template_world
        (EmailService_init demo_config no_template_world) (PStr (ustr ''a@b.com''))
        (PStr (ustr ''jdoe'')) demo_state
       = (Inl (Exn ''TemplateNotFound'' ''password_reset_success.html''), demo_state)
   \<and> dict_get (PDict [(ustr ''email'', PStr (ustr ''a@b.com'')), (ustr ''username'', PStr (ustr ''jdoe''))]) ''email'' = Inr (PStr (ustr ''a@b.com''))
   \<and> truthy (PStr (ustr ''a@b.com''))
   \<and> dict_get (PDict [(ustr ''email'', PStr (ustr ''a@b.com'')), (ustr ''username'', PStr (ustr ''jdoe''))]) ''username'' = Inr (PStr (ustr ''jdoe''))
   \<and> truthy (PStr (ustr ''jdoe''))
   \<and> dict_get (PDict [(ustr ''email'', PStr (ustr ''a@b.com'')), (ustr ''username'', PStr (ustr ''jdoe''))]) ''user_name'' = Inr PNone
   \<and> fst (send_password_reset no_template_world demo_config
             (EmailService_init demo_config no_template_world)
             (Inr (PDict [(ustr ''email'', PStr (ustr ''a@b.com'')), (ustr ''username'', PStr (ustr ''jdoe''))]))
             demo_state)
       = Inr (error_body ''password_reset.html'', 500)
   \<and> smtp_log (snd (send_password_reset no_template_world demo_config
             (EmailService_init demo_config no_template_world)
             (Inr (PDict [(ustr ''email'', PStr (ustr ''a@b.com'')), (ustr ''username'', PStr (ustr ''jdoe''))]))
             demo_state)) = []
   \<and> fst (send_reset_success no_template_world
             (EmailService_init demo_config no_template_world)
             (Inr (PDict [(ustr ''email'', PStr (ustr ''a@b.com'')), (ustr ''username'', PStr (ustr ''jdoe''))]))
             demo_state)
       = Inr (error_body ''password_reset_success.html'', 500)
   \<and> smtp_log (snd (send_reset_success no_template_world
             (EmailService_init demo_config no_template_world)
             (Inr (PDict [(ustr ''email'', PStr (ustr ''a@b.com'')), (ustr ''username'', PStr (ustr ''jdoe''))]))
             demo_state)) = []"
proof -
  let ?svc = "EmailService_init demo_config no_template_world"
  let ?data = "PDict [(ustr ''email'', PStr (ustr ''a@b.com'')), (ustr ''username'', PStr (ustr ''jdoe''))]"
  have r: "\<And>name ctx. render_raises ?svc name ctx (Exn ''TemplateNotFound'' name)"
    by (simp add: render_raises_def EmailService_init_def no_template_world_def demo_world_def)
  have d: "dict_get ?data ''email'' = Inr (PStr (ustr ''a@b.com''))"
    "truthy (PStr (ustr ''a@b.com''))"
    "dict_get ?data ''username'' = Inr (PStr (ustr ''jdoe''))" "truthy (PStr (ustr ''jdoe''))"
    "dict_get ?data ''user_name'' = Inr PNone"
    by (simp_all add: dict_get_def)
  have l: "smtp_log demo_state = []" by (simp add: demo_state_def)
  note t1 = rendering_error_propagates [where self = ?svc and w = no_template_world
      and cfg = demo_config and st = demo_state and data = ?data
      and email = "PStr (ustr ''a@b.com'')" and username = "PStr (ustr ''jdoe'')"
      and user_name = PNone and to_email = "PStr (ustr ''a@b.com'')"
      and reset_url = "PStr (ustr ''https://x/reset?token=T&username=jdoe'')"
      and e = "Exn ''TemplateNotFound'' ''password_reset.html''"]
  note t2 = rendering_error_propagates [where self = ?svc and w = no_template_world
      and cfg = demo_config and st = demo_state and data = ?data
      and email = "PStr (ustr ''a@b.com'')" and username = "PStr (ustr ''jdoe'')"
      and user_name = PNone and to_email = "PStr (ustr ''a@b.com'')"
      and reset_url = "PStr (ustr ''https://x/reset?token=T&username=jdoe'')"
      and e = "Exn ''TemplateNotFound'' ''password_reset_success.html''"]
  from t1 t2 r d l show ?thesis by simp
qed

section \<open>The password reset endpoint\<close>

lemma b64char_0: "b64char 0 = CHR ''A''"
  by (simp add: b64char_def urlsafe_alphabet_def)

lemma demo_token:
  "fst (generate_reset_token demo_world st) =
     ustr ''AAAAAAAAAAAAAAAAAAAAAAAAAAAAAAAAAAAAAAAAAAA''"
  by (simp add: generate_reset_token_def token_urlsafe_bytes demo_world_def
        map_replicate_const eval_nat_numeral b64char_0 rstrip_def
        del: replicate.simps upt_Suc)
     (simp add: b64char_0)

text \<open>
  C8. When the password reset endpoint answers 200, the body is a dict with \<open>email\<close> and
  \<open>username\<close>, the facade was called with the reset URL
  \<open>PASSWORD_RESET_URL_BASE\<close> + "?token=" + t + "&username=" + username, where t is the
  token generated for this request, the facade returned \<open>True\<close>, and the \<open>token\<close>
  field of the response is that same t.
\<close>

theorem reset_url_and_token:
  assumes "fst (send_password_reset w cfg email_service req st) = Inr (body, 200)"
  shows "\<exists>data email username user_name.
           req = Inr data
           \<and> dict_get data ''email'' = Inr email
           \<and> dict_get data ''username'' = Inr username
           \<and> dict_get data ''user_name'' = Inr user_name
           \<and> fst (send_password_reset_email w email_service email username
                     (PStr (PASSWORD_RESET_URL_BASE cfg @ ustr ''?token=''
                            @ fst (generate_reset_token w st)
                            @ ustr ''&username='' @ py_str w username))
                     user_name (snd (generate_reset_token w st))) = Inr True
           \<and> snd (send_password_reset w cfg email_service req st) =
               snd (send_password_reset_email w email_service email username
                     (PStr (PASSWORD_RESET_URL_BASE cfg @ ustr ''?token=''
                            @ fst (generate_reset_token w st)
                            @ ustr ''&username='' @ py_str w username))
                     user_name (snd (generate_reset_token w st)))
           \<and> body = PDict [(ustr ''status'', PStr (ustr ''sent'')),
                            (ustr ''message'', PStr (ustr ''Password reset email sent successfully'')),
                            (ustr ''token'', PStr (fst (generate_reset_token w st)))]"
proof -
  from assms obtain data where req: "req = Inr data"
    by (cases req) (simp_all add: send_password_reset_def io_defs respond_500_def)
  from assms req obtain kvs where data: "data = PDict kvs"
    by (cases data) (simp_all add: send_password_reset_def io_defs respond_500_def dict_get_def)
  define email where "email = (case map_of kvs (ustr ''email'') of None \<Rightarrow> PNone | Some v \<Rightarrow> v)"
  define username where
    "username = (case map_of kvs (ustr ''username'') of None \<Rightarrow> PNone | Some v \<Rightarrow> v)"
  define user_name where
    "user_name = (case map_of kvs (ustr ''user_name'') of None \<Rightarrow> PNone | Some v \<Rightarrow> v)"
  have gets: "dict_get data ''email'' = Inr email" "dict_get data ''username'' = Inr username"
    "dict_get data ''user_name'' = Inr user_name"
    by (simp_all add: data dict_get_def email_def username_def user_name_def)
  have t: "truthy email \<and> truthy username"
  proof (rule ccontr)
    assume "\<not> (truthy email \<and> truthy username)"
    with gets req have "fst (send_password_reset w cfg email_service req st) =
                          Inr (error_body ''email and username are required'', 400)"
      by (simp add: send_password_reset_def io_defs)
    with assms show False by simp
  qed
  obtain tok st1 where g: "generate_reset_token w st = (tok, st1)"
    by (cases "generate_reset_token w st")
  define url where "url = PASSWORD_RESET_URL_BASE cfg @ ustr ''?token='' @ tok
                          @ ustr ''&username='' @ py_str w username"
  obtain r st2 where f: "send_password_reset_email w email_service email username (PStr url)
                           user_name st1 = (r, st2)"
    by (cases "send_password_reset_email w email_service email username (PStr url)
                 user_name st1")
  have unfold: "send_password_reset w cfg email_service req st =
          (case r of
             Inl e \<Rightarrow> (Inr (error_body (exn_str e), 500),
                       st2\<lparr>stdout := stdout st2
                              @ [ustr ''Error in password reset endpoint: '' @ ustr (exn_str e)]\<rparr>)
           | Inr success \<Rightarrow>
               if success
               then (Inr (PDict [(ustr ''status'', PStr (ustr ''sent'')),
                                 (ustr ''message'', PStr (ustr ''Password reset email sent successfully'')),
                                 (ustr ''token'', PStr tok)], 200), st2)
               else (Inr (error_body ''Failed to send email'', 500), st2))"
    using req gets t g f
    by (simp add: send_password_reset_def io_defs respond_500_def url_def Let_def
          split: sum.splits)
  from assms unfold have r: "r = Inr True"
    by (cases r) (simp_all split: if_splits)
  with unfold have res: "send_password_reset w cfg email_service req st =
      (Inr (PDict [(ustr ''status'', PStr (ustr ''sent'')),
                   (ustr ''message'', PStr (ustr ''Password reset email sent successfully'')),
                   (ustr ''token'', PStr tok)], 200), st2)"
    by simp
  with assms have body: "body = PDict [(ustr ''status'', PStr (ustr ''sent'')),
                   (ustr ''message'', PStr (ustr ''Password reset email sent successfully'')),
                   (ustr ''token'', PStr tok)]" by simp
  show ?thesis
    using req gets g f r res body
    by (intro exI [of _ data] exI [of _ email] exI [of _ username] exI [of _ user_name])
       (simp add: url_def)
qed

theorem reset_url_and_token_witness:
  "fst (send_password_reset demo_world demo_config demo_service
          (Inr (PDict [(ustr ''email'', PStr (ustr ''a@b.com'')), (ustr ''username'', PStr (ustr ''jdoe''))]))
          demo_state) =
     Inr (PDict [(ustr ''status'', PStr (ustr ''sent'')),
                 (ustr ''message'', PStr (ustr ''Password reset email sent successfully'')),
                 (ustr ''token'', PStr (ustr ''AAAAAAAAAAAAAAAAAAAAAAAAAAAAAAAAAAAAAAAAAAA''))],
          200)
   \<and> fst (send_password_reset_email demo_world demo_service (PStr (ustr ''a@b.com''))
            (PStr (ustr ''jdoe''))
            (PStr (ustr ''https://yourapp.com/reset'' @ ustr ''?token=''
                   @ ustr ''AAAAAAAAAAAAAAAAAAAAAAAAAAAAAAAAAAAAAAAAAAA''
                   @ ustr ''&username='' @ ustr ''jdoe''))
            PNone (snd (generate_reset_token demo_world demo_state))) = Inr True"
proof -
  have h: "fst (send_password_reset demo_world demo_config demo_service
          (Inr (PDict [(ustr ''email'', PStr (ustr ''a@b.com'')), (ustr ''username'', PStr (ustr ''jdoe''))]))
          demo_state) =
     Inr (PDict [(ustr ''status'', PStr (ustr ''sent'')),
                 (ustr ''message'', PStr (ustr ''Password reset email sent successfully'')),
                 (ustr ''token'', PStr (ustr ''AAAAAAAAAAAAAAAAAAAAAAAAAAAAAAAAAAAAAAAAAAA''))],
          200)"
    by (simp add: send_password_reset_def send_password_reset_email_def reset_context_def
          reset_subject_def py_or_def send_email_def send_email_transmit_def send_message_def
          send_email_compose_def MIMEMultipart_new_def set_header_def attach_def io_defs
          dict_get_def demo_world_sel demo_service_sel demo_flatten_def demo_config_def
          demo_render_def py_opt_def Let_def case_prod_beta demo_token sent_line_def
          reset_text_encodable reset_text_nonempty)
  have base: "PASSWORD_RESET_URL_BASE demo_config = ustr ''https://yourapp.com/reset''"
    by (simp add: demo_config_def)
  from reset_url_and_token [OF h] obtain data email username user_name where c:
    "Inr (PDict [(ustr ''email'', PStr (ustr ''a@b.com'')), (ustr ''username'', PStr (ustr ''jdoe''))]) = (Inr data :: request)"
    "dict_get data ''email'' = Inr email"
    "dict_get data ''username'' = Inr username"
    "dict_get data ''user_name'' = Inr user_name"
    "fst (send_password_reset_email demo_world demo_service email username
            (PStr (PASSWORD_RESET_URL_BASE demo_config @ ustr ''?token=''
                   @ fst (generate_reset_token demo_world demo_state)
                   @ ustr ''&username='' @ py_str demo_world username))
            user_name (snd (generate_reset_token demo_world demo_state))) = Inr True"
    by blast
  from c(1) have data: "data = PDict [(ustr ''email'', PStr (ustr ''a@b.com'')), (ustr ''username'', PStr (ustr ''jdoe''))]"
    by simp
  from c(2,3,4) have v: "email = PStr (ustr ''a@b.com'')" "username = PStr (ustr ''jdoe'')"
    "user_name = PNone"
    by (simp_all add: data dict_get_def)
  have s: "py_str demo_world (PStr (ustr ''jdoe'')) = ustr ''jdoe''" by simp
  from c(5) have "fst (send_password_reset_email demo_world demo_service (PStr (ustr ''a@b.com''))
            (PStr (ustr ''jdoe''))
            (PStr (ustr ''https://yourapp.com/reset'' @ ustr ''?token=''
                   @ ustr ''AAAAAAAAAAAAAAAAAAAAAAAAAAAAAAAAAAAAAAAAAAA''
                   @ ustr ''&username='' @ ustr ''jdoe''))
            PNone (snd (generate_reset_token demo_world demo_state))) = Inr True"
    by (simp only: v base demo_token s)
  with h show ?thesis by (rule conjI)
qed

theorem generate_reset_token_shape_witness:
  "fst (generate_reset_token demo_world (demo_state\<lparr>rand_pos := 7\<rparr>))
     = fst (generate_reset_token demo_world demo_state)
   \<and> map (urandom demo_world)
       [rand_pos (demo_state\<lparr>rand_pos := 7\<rparr>) ..< rand_pos (demo_state\<lparr>rand_pos := 7\<rparr>) + 32]
     = map (urandom demo_world) [rand_pos demo_state ..< rand_pos demo_state + 32]
   \<and> length (fst (generate_reset_token demo_world demo_state)) = 43
   \<and> list_all url_unreserved (fst (generate_reset_token demo_world demo_state))
   \<and> rand_pos (snd (generate_reset_token demo_world demo_state)) = rand_pos demo_state + 32"
proof -
  have h: "fst (generate_reset_token demo_world (demo_state\<lparr>rand_pos := 7\<rparr>))
           = fst (generate_reset_token demo_world demo_state)"
    by (simp only: demo_token)
  from generate_reset_token_shape [of demo_world demo_state demo_world
      "demo_state\<lparr>rand_pos := 7\<rparr>"] h
  show ?thesis by blast
qed

end
